theory Spec2Isabelle
  imports Complex_Main
begin

section \<open>Time, durations and floating-point values\<close>

text \<open>
  A \<^verbatim>\<open>time.Time\<close> is an instant of the process clock and a \<^verbatim>\<open>time.Duration\<close> a signed
  count of nanoseconds; both are read in nanoseconds. Every \<^verbatim>\<open>time.Now()\<close> of the source is
  an explicit argument of the operation that performs it.

  The \<^verbatim>\<open>int64\<close> request counters are modelled by their mathematical value: each of them
  starts at zero and moves by one per registry call, so that it stays inside the
  \<^verbatim>\<open>int64\<close> range on every run shorter than \<open>2 ^ 63\<close> calls (lemma
  \<open>counters_within_int64\<close> below).
\<close>

type_synonym Time = int
type_synonym Duration = int

definition Second :: Duration where
  "Second = 1000000000"

definition Minute :: Duration where
  "Minute = 60 * Second"

definition maxDuration :: Duration where
  "maxDuration = 2 ^ 63 - 1"

definition minDuration :: Duration where
  "minDuration = - (2 ^ 63)"

text \<open>\<^verbatim>\<open>t.Sub(u)\<close>: the difference, saturated at the ends of the \<^verbatim>\<open>Duration\<close> range.\<close>

definition Sub :: "Time \<Rightarrow> Time \<Rightarrow> Duration" where
  "Sub t u =
     (if t - u > maxDuration then maxDuration
      else if t - u < minDuration then minDuration
      else t - u)"

text \<open>
  A \<^verbatim>\<open>float64\<close> is a finite value, an infinity or NaN. Finite values are computed exactly
  (the rounding of binary floating point is not modelled, nor is the sign of zero); the
  special values follow IEEE 754, since a division by a zero configuration value produces
  them.
\<close>

datatype float64 = Fin real | PInf | NInf | NaN

fun isFin :: "float64 \<Rightarrow> bool" where
  "isFin (Fin x) = True"
| "isFin _ = False"

fun fneg :: "float64 \<Rightarrow> float64" where
  "fneg (Fin x) = Fin (- x)"
| "fneg PInf = NInf"
| "fneg NInf = PInf"
| "fneg NaN = NaN"

fun fadd :: "float64 \<Rightarrow> float64 \<Rightarrow> float64" where
  "fadd (Fin x) (Fin y) = Fin (x + y)"
| "fadd NaN _ = NaN"
| "fadd _ NaN = NaN"
| "fadd PInf NInf = NaN"
| "fadd NInf PInf = NaN"
| "fadd PInf _ = PInf"
| "fadd _ PInf = PInf"
| "fadd NInf _ = NInf"
| "fadd _ NInf = NInf"

definition fsub :: "float64 \<Rightarrow> float64 \<Rightarrow> float64" where
  "fsub x y = fadd x (fneg y)"

text \<open>The sign of an infinite product or quotient: the infinity of the sign of \<open>s\<close>.\<close>

definition signedInf :: "real \<Rightarrow> float64" where
  "signedInf s = (if s = 0 then NaN else if 0 < s then PInf else NInf)"

fun fsign :: "float64 \<Rightarrow> real" where
  "fsign (Fin x) = sgn x"
| "fsign PInf = 1"
| "fsign NInf = - 1"
| "fsign NaN = 0"

fun fmul :: "float64 \<Rightarrow> float64 \<Rightarrow> float64" where
  "fmul (Fin x) (Fin y) = Fin (x * y)"
| "fmul NaN _ = NaN"
| "fmul _ NaN = NaN"
| "fmul x y = signedInf (fsign x * fsign y)"

fun fdiv :: "float64 \<Rightarrow> float64 \<Rightarrow> float64" where
  "fdiv (Fin x) (Fin y) = (if y = 0 then signedInf x else Fin (x / y))"
| "fdiv NaN _ = NaN"
| "fdiv _ NaN = NaN"
| "fdiv (Fin x) _ = Fin 0"
| "fdiv x (Fin y) = (if y < 0 then fneg x else x)"
| "fdiv _ _ = NaN"

text \<open>The comparisons \<^verbatim>\<open>>\<close> and \<^verbatim>\<open>!=\<close>: every comparison with NaN but \<^verbatim>\<open>!=\<close> is false.\<close>

fun fgt :: "float64 \<Rightarrow> float64 \<Rightarrow> bool" where
  "fgt (Fin x) (Fin y) = (y < x)"
| "fgt NaN _ = False"
| "fgt _ NaN = False"
| "fgt PInf PInf = False"
| "fgt PInf _ = True"
| "fgt _ PInf = False"
| "fgt NInf _ = False"
| "fgt _ NInf = True"

fun fne :: "float64 \<Rightarrow> float64 \<Rightarrow> bool" where
  "fne NaN _ = True"
| "fne _ NaN = True"
| "fne x y = (x \<noteq> y)"

text \<open>
  \<^verbatim>\<open>math.Min(x, y)\<close>: minus infinity if either argument is minus infinity, else NaN if
  either is NaN, else the smaller.
\<close>

fun Min_float64 :: "float64 \<Rightarrow> float64 \<Rightarrow> float64" where
  "Min_float64 NInf _ = NInf"
| "Min_float64 _ NInf = NInf"
| "Min_float64 NaN _ = NaN"
| "Min_float64 _ NaN = NaN"
| "Min_float64 (Fin x) (Fin y) = Fin (min x y)"
| "Min_float64 PInf y = y"
| "Min_float64 x PInf = x"

text \<open>\<^verbatim>\<open>d.Seconds()\<close>; a count \<open>n\<close> converts to the \<^verbatim>\<open>float64\<close> \<open>real_of_int n\<close>.\<close>

definition Seconds :: "Duration \<Rightarrow> real" where
  "Seconds d = real_of_int d / 1000000000"

text \<open>
  \<^verbatim>\<open>time.Duration(x)\<close> of a finite \<open>x\<close>: the fraction is discarded (truncation towards
  zero).
\<close>

definition toDuration :: "real \<Rightarrow> Duration" where
  "toDuration x = (if 0 \<le> x then \<lfloor>x\<rfloor> else \<lceil>x\<rceil>)"

section \<open>The workload registry\<close>

text \<open>
  The decay factor \<open>EMAAlpha\<close> is the zero value of a new entry or the constant
  \<open>0.2\<close>, never an infinity or NaN: it is a real number.
\<close>

record WorkloadMetrics =
  WorkloadID :: string
  TotalRequests :: int
  ActiveRequests :: int
  SlidingWindowRequests :: int
  WindowStartTime :: Time
  LastRequestTime :: Time
  AverageWaitTime :: Duration
  DispatchedCount :: int
  EMAAlpha :: real

text \<open>
  The \<^verbatim>\<open>sync.Map\<close> from workload ids to metrics is a partial map. The three request
  handlers, \<^verbatim>\<open>GetRequestRate\<close> and \<^verbatim>\<open>GetMetrics\<close> read and write an entry under its lock:
  each of them is one step of the model. \<^verbatim>\<open>cleanup\<close> is not one step: it reads an entry
  under the lock, releases the lock and deletes the entry afterwards, so that calls of
  other goroutines can come between its two halves. The ticker and the stop channel of the
  cleanup goroutine carry no data.
\<close>

record WorkloadRegistry =
  workloads :: "string \<rightharpoonup> WorkloadMetrics"
  windowDuration :: Duration

definition NewWorkloadRegistry :: "Duration \<Rightarrow> WorkloadRegistry" where
  "NewWorkloadRegistry wd =
     \<lparr>workloads = Map.empty,
      windowDuration = (if wd \<le> 0 then 60 * Second else wd)\<rparr>"

text \<open>The metrics that \<^verbatim>\<open>LoadOrStore\<close> stores for an id not seen before.\<close>

definition freshMetrics :: "string \<Rightarrow> Time \<Rightarrow> WorkloadMetrics" where
  "freshMetrics workloadID now =
     \<lparr>WorkloadID = workloadID, TotalRequests = 0, ActiveRequests = 0,
      SlidingWindowRequests = 0, WindowStartTime = now, LastRequestTime = now,
      AverageWaitTime = 0, DispatchedCount = 0, EMAAlpha = 0\<rparr>"

definition WorkloadHandleNewRequest ::
  "WorkloadRegistry \<Rightarrow> Time \<Rightarrow> string \<Rightarrow> WorkloadRegistry" where
  "WorkloadHandleNewRequest wr now workloadID =
     (let metrics = (case workloads wr workloadID of
                       None \<Rightarrow> freshMetrics workloadID now
                     | Some m \<Rightarrow> m);
          m1 = metrics\<lparr>TotalRequests := TotalRequests metrics + 1,
                       ActiveRequests := ActiveRequests metrics + 1,
                       LastRequestTime := now\<rparr>;
          m2 = (if Sub now (WindowStartTime m1) > windowDuration wr
                then m1\<lparr>WindowStartTime := now, SlidingWindowRequests := 1\<rparr>
                else m1\<lparr>SlidingWindowRequests := SlidingWindowRequests m1 + 1\<rparr>)
      in wr\<lparr>workloads := (workloads wr)(workloadID \<mapsto> m2)\<rparr>)"

definition WorkloadHandleDispatchedRequest ::
  "WorkloadRegistry \<Rightarrow> string \<Rightarrow> Duration \<Rightarrow> WorkloadRegistry" where
  "WorkloadHandleDispatchedRequest wr workloadID waitTime =
     (case workloads wr workloadID of
        None \<Rightarrow> wr
      | Some metrics \<Rightarrow>
          (let m1 = (if EMAAlpha metrics = 0 then metrics\<lparr>EMAAlpha := 0.2\<rparr> else metrics);
               m2 = (if DispatchedCount m1 = 0
                     then m1\<lparr>AverageWaitTime := waitTime\<rparr>
                     else (let alpha = EMAAlpha m1;
                               oldAvg = real_of_int (AverageWaitTime m1);
                               newWait = real_of_int waitTime
                           in m1\<lparr>AverageWaitTime :=
                                  toDuration (alpha * newWait + (1 - alpha) * oldAvg)\<rparr>));
               m3 = m2\<lparr>DispatchedCount := DispatchedCount m2 + 1\<rparr>
           in wr\<lparr>workloads := (workloads wr)(workloadID \<mapsto> m3)\<rparr>))"

definition WorkloadHandleCompletedRequest ::
  "WorkloadRegistry \<Rightarrow> string \<Rightarrow> WorkloadRegistry" where
  "WorkloadHandleCompletedRequest wr workloadID =
     (case workloads wr workloadID of
        None \<Rightarrow> wr
      | Some metrics \<Rightarrow>
          (if ActiveRequests metrics > 0
           then wr\<lparr>workloads := (workloads wr)(workloadID \<mapsto>
                      metrics\<lparr>ActiveRequests := ActiveRequests metrics - 1\<rparr>)\<rparr>
           else wr))"

definition GetRequestRate :: "WorkloadRegistry \<Rightarrow> Time \<Rightarrow> string \<Rightarrow> float64" where
  "GetRequestRate wr now workloadID =
     (case workloads wr workloadID of
        None \<Rightarrow> Fin 0
      | Some metrics \<Rightarrow>
          (let windowAge = Sub now (WindowStartTime metrics)
           in if windowAge > windowDuration wr then Fin 0
              else if Seconds windowAge = 0 then Fin 0
              else fdiv (Fin (real_of_int (SlidingWindowRequests metrics)))
                        (Fin (Seconds windowAge))))"

definition GetMetrics :: "WorkloadRegistry \<Rightarrow> string \<Rightarrow> WorkloadMetrics option" where
  "GetMetrics wr workloadID = workloads wr workloadID"

definition isInactive :: "Time \<Rightarrow> WorkloadMetrics \<Rightarrow> bool" where
  "isInactive now metrics \<longleftrightarrow>
     ActiveRequests metrics = 0 \<and> Sub now (LastRequestTime metrics) > 5 * Minute"

text \<open>
  One visit of \<^verbatim>\<open>cleanup\<close>'s \<^verbatim>\<open>Range\<close> has two halves. The first computes
  \<^verbatim>\<open>isInactive\<close> under the entry's read lock (\<open>cleanupCheck\<close>; a key without an
  entry is not visited). The second, after the lock is released, is
  \<^verbatim>\<open>wr.workloads.Delete(key)\<close> when the first half found the entry inactive.
\<close>

definition cleanupCheck :: "WorkloadRegistry \<Rightarrow> Time \<Rightarrow> string \<Rightarrow> bool" where
  "cleanupCheck wr now key =
     (case workloads wr key of
        None \<Rightarrow> False
      | Some metrics \<Rightarrow> isInactive now metrics)"

definition workloads_Delete :: "WorkloadRegistry \<Rightarrow> string \<Rightarrow> WorkloadRegistry" where
  "workloads_Delete wr key = wr\<lparr>workloads := (workloads wr)(key := None)\<rparr>"

text \<open>
  A \<^verbatim>\<open>cleanup\<close> that no other call interrupts: every entry that the check finds inactive
  is deleted, every other entry stays.
\<close>

definition cleanup :: "WorkloadRegistry \<Rightarrow> Time \<Rightarrow> WorkloadRegistry" where
  "cleanup wr now =
     wr\<lparr>workloads := (\<lambda>key. if cleanupCheck wr now key
                              then workloads (workloads_Delete wr key) key
                              else workloads wr key)\<rparr>"

text \<open>
  A run of the registry: the steps that change the map, in the order in which they take
  effect on it. \<open>NewRequest\<close> and \<open>Cleanup\<close> carry the clock reading of their call.
  \<open>Cleanup\<close> is a cleanup that nothing interrupts; \<open>DeleteEntry\<close> is the second half of
  a visit of an interrupted cleanup, the deletion of an entry that was found inactive at
  some earlier point of the run. A handler that has loaded an entry which a cleanup deletes
  before the handler takes the lock changes metrics that are no longer in the map: in a
  run that handler stands before the deletion.
\<close>

datatype registry_op =
    NewRequest Time string
  | DispatchedRequest string Duration
  | CompletedRequest string
  | Cleanup Time
  | DeleteEntry string

fun apply_op :: "WorkloadRegistry \<Rightarrow> registry_op \<Rightarrow> WorkloadRegistry" where
  "apply_op wr (NewRequest now w) = WorkloadHandleNewRequest wr now w"
| "apply_op wr (DispatchedRequest w waitTime) = WorkloadHandleDispatchedRequest wr w waitTime"
| "apply_op wr (CompletedRequest w) = WorkloadHandleCompletedRequest wr w"
| "apply_op wr (Cleanup now) = cleanup wr now"
| "apply_op wr (DeleteEntry w) = workloads_Delete wr w"

definition run_ops :: "WorkloadRegistry \<Rightarrow> registry_op list \<Rightarrow> WorkloadRegistry" where
  "run_ops = foldl apply_op"

text \<open>
  One visit of \<^verbatim>\<open>cleanup\<close>, at the key \<open>key\<close>, with the steps \<open>between\<close> of other
  goroutines taking effect after the check has released the lock and before the deletion.
\<close>

definition cleanupEntry ::
  "WorkloadRegistry \<Rightarrow> Time \<Rightarrow> string \<Rightarrow> registry_op list \<Rightarrow> WorkloadRegistry" where
  "cleanupEntry wr now key between =
     (let inactive = cleanupCheck wr now key;
          wr' = run_ops wr between
      in if inactive then workloads_Delete wr' key else wr')"

text \<open>The clock reading of an operation, when it takes one, is not later than \<open>t\<close>.\<close>

fun read_by :: "Time \<Rightarrow> registry_op \<Rightarrow> bool" where
  "read_by t (NewRequest now w) = (now \<le> t)"
| "read_by t (Cleanup now) = (now \<le> t)"
| "read_by t _ = True"

text \<open>The counter invariant of one entry, and of every entry of a registry.\<close>

definition counters_ok :: "WorkloadMetrics \<Rightarrow> bool" where
  "counters_ok m \<longleftrightarrow> 0 \<le> ActiveRequests m \<and> ActiveRequests m \<le> TotalRequests m"

definition registry_ok :: "WorkloadRegistry \<Rightarrow> bool" where
  "registry_ok wr \<longleftrightarrow> (\<forall>w m. workloads wr w = Some m \<longrightarrow> counters_ok m)"

text \<open>
  The window invariants: every tracked workload has at least one request in its window,
  and no window starts after the instant \<open>t\<close>.
\<close>

definition window_counts_ok :: "WorkloadRegistry \<Rightarrow> bool" where
  "window_counts_ok wr \<longleftrightarrow>
     (\<forall>w m. workloads wr w = Some m \<longrightarrow> 1 \<le> SlidingWindowRequests m)"

definition windows_started_by :: "Time \<Rightarrow> WorkloadRegistry \<Rightarrow> bool" where
  "windows_started_by t wr \<longleftrightarrow>
     (\<forall>w m. workloads wr w = Some m \<longrightarrow> WindowStartTime m \<le> t)"

text \<open>
  The counters of an entry lie between 0 and \<open>n\<close>; those of every entry of a registry do.
\<close>

definition entry_within :: "int \<Rightarrow> WorkloadMetrics \<Rightarrow> bool" where
  "entry_within n m \<longleftrightarrow>
     0 \<le> TotalRequests m \<and> TotalRequests m \<le> n \<and>
     0 \<le> ActiveRequests m \<and> ActiveRequests m \<le> n \<and>
     0 \<le> SlidingWindowRequests m \<and> SlidingWindowRequests m \<le> n \<and>
     0 \<le> DispatchedCount m \<and> DispatchedCount m \<le> n"

definition counters_within :: "int \<Rightarrow> WorkloadRegistry \<Rightarrow> bool" where
  "counters_within n wr \<longleftrightarrow> (\<forall>w m. workloads wr w = Some m \<longrightarrow> entry_within n m)"

section \<open>The workload-aware ordering policy\<close>

text \<open>
  The workload context of a request is an interface value that may be nil; a queue item
  is an interface value that may be nil as well (\<open>None\<close>).
\<close>

record WorkloadContext =
  GetWorkloadID :: string
  GetCriticality :: int

record FlowControlRequest =
  ID :: string
  GetWorkloadContext :: "WorkloadContext option"

record QueueItemAccessor =
  OriginalRequest :: FlowControlRequest
  EnqueueTime :: Time

record WorkloadAwarePolicyConfig =
  WaitTimeWeight :: float64
  CriticalityWeight :: float64
  RequestRateWeight :: float64
  MaxWaitTimeSeconds :: float64
  MaxRequestRate :: float64

definition DefaultWorkloadAwarePolicyConfig :: WorkloadAwarePolicyConfig where
  "DefaultWorkloadAwarePolicyConfig =
     \<lparr>WaitTimeWeight = Fin 0.4, CriticalityWeight = Fin 0.4, RequestRateWeight = Fin 0.2,
      MaxWaitTimeSeconds = Fin 60, MaxRequestRate = Fin 100\<rparr>"

text \<open>
  The policy holds a pointer to the registry, which may be nil; the model holds the
  registry's state at the moment of the call, and no other goroutine changes the registry
  while a score is computed or two items are compared.
\<close>

record WorkloadAwarePolicy =
  config :: WorkloadAwarePolicyConfig
  workloadRegistry :: "WorkloadRegistry option"

definition NewWorkloadAwarePolicy ::
  "WorkloadRegistry option \<Rightarrow> WorkloadAwarePolicyConfig \<Rightarrow> WorkloadAwarePolicy" where
  "NewWorkloadAwarePolicy registry cfg = \<lparr>config = cfg, workloadRegistry = registry\<rparr>"

definition NewWorkloadAwarePolicyWithDefaults ::
  "WorkloadRegistry option \<Rightarrow> WorkloadAwarePolicy" where
  "NewWorkloadAwarePolicyWithDefaults registry =
     NewWorkloadAwarePolicy registry DefaultWorkloadAwarePolicyConfig"

text \<open>
  \<^verbatim>\<open>computeScore\<close> in its three stages. First the workload id and the criticality that
  the score is computed from: the defaults when the request has no context, and the
  default criticality when the context's value is out of range.
\<close>

definition effectiveContext :: "WorkloadContext option \<Rightarrow> string \<times> int" where
  "effectiveContext workloadCtx =
     (case workloadCtx of
        None \<Rightarrow> (''default'', 3)
      | Some c \<Rightarrow>
          (GetWorkloadID c,
           if GetCriticality c < 1 \<or> GetCriticality c > 5 then 3 else GetCriticality c))"

text \<open>Then the workload's average wait time in seconds and its request rate.\<close>

definition workloadAvgWaitTime :: "WorkloadAwarePolicy \<Rightarrow> string \<Rightarrow> real" where
  "workloadAvgWaitTime p workloadID =
     (case workloadRegistry p of
        None \<Rightarrow> 0
      | Some wr \<Rightarrow>
          (case GetMetrics wr workloadID of
             None \<Rightarrow> 0
           | Some metrics \<Rightarrow> Seconds (AverageWaitTime metrics)))"

definition workloadRequestRate :: "WorkloadAwarePolicy \<Rightarrow> Time \<Rightarrow> string \<Rightarrow> float64" where
  "workloadRequestRate p clock workloadID =
     (case workloadRegistry p of
        None \<Rightarrow> Fin 0
      | Some wr \<Rightarrow> GetRequestRate wr clock workloadID)"

text \<open>Last the normalisation of the three components and their weighted sum.\<close>

definition weightedScore ::
  "WorkloadAwarePolicyConfig \<Rightarrow> real \<Rightarrow> int \<Rightarrow> float64 \<Rightarrow> float64" where
  "weightedScore cfg avgWaitTime criticality requestRate =
     (let normalizedWait = Min_float64 (fdiv (Fin avgWaitTime) (MaxWaitTimeSeconds cfg)) (Fin 1);
          normalizedCrit = fdiv (Fin (real_of_int criticality)) (Fin 5);
          normalizedRate = Min_float64 (fdiv requestRate (MaxRequestRate cfg)) (Fin 1)
      in fsub (fadd (fmul normalizedWait (WaitTimeWeight cfg))
                    (fmul normalizedCrit (CriticalityWeight cfg)))
              (fmul normalizedRate (RequestRateWeight cfg)))"

text \<open>
  The argument \<open>now\<close> is the one the source passes and never reads; \<open>clock\<close> is the
  reading that \<^verbatim>\<open>GetRequestRate\<close> takes inside the call.
\<close>

definition computeScore ::
  "WorkloadAwarePolicy \<Rightarrow> QueueItemAccessor \<Rightarrow> Time \<Rightarrow> Time \<Rightarrow> float64" where
  "computeScore p item now clock =
     (case effectiveContext (GetWorkloadContext (OriginalRequest item)) of
        (workloadID, criticality) \<Rightarrow>
          weightedScore (config p) (workloadAvgWaitTime p workloadID) criticality
            (workloadRequestRate p clock workloadID))"

text \<open>
  \<^verbatim>\<open>Less\<close> reads the clock once itself and once in each of the two score computations:
  \<open>clockA\<close> and \<open>clockB\<close> are the latter two readings.
\<close>

definition Less ::
  "WorkloadAwarePolicy \<Rightarrow> Time \<Rightarrow> Time \<Rightarrow> Time \<Rightarrow>
   QueueItemAccessor option \<Rightarrow> QueueItemAccessor option \<Rightarrow> bool" where
  "Less p now clockA clockB a b =
     (case (a, b) of
        (None, None) \<Rightarrow> False
      | (None, Some y) \<Rightarrow> False
      | (Some x, None) \<Rightarrow> True
      | (Some x, Some y) \<Rightarrow>
          (let scoreA = computeScore p x now clockA;
               scoreB = computeScore p y now clockB
           in if fne scoreA scoreB then fgt scoreA scoreB
              else EnqueueTime x < EnqueueTime y))"

section \<open>The workload context header\<close>

text \<open>
  Modelled from the spec: the JSON object of the header, with the fields \<^verbatim>\<open>workload_id\<close>
  (a string) and \<^verbatim>\<open>criticality\<close> (an integer), each present or absent.
\<close>

record WorkloadContextJSON =
  json_workload_id :: "string option"
  json_criticality :: "int option"

text \<open>
  Modelled from the spec: \<^verbatim>\<open>extractWorkloadContext\<close> of \<^verbatim>\<open>pkg/epp/handlers/request.go\<close>,
  a file that is not among the sources. Its tests are (\<^verbatim>\<open>request_test.go\<close>: two
  arguments, generated ids that start with \<^verbatim>\<open>auto-\<close>, out-of-range criticalities clamped
  to 1 and 5); the function quoted in the phase summary is an earlier draft of it (one
  argument, ids \<^verbatim>\<open>unknown-\<close>, \<^verbatim>\<open>invalid-\<close> and \<^verbatim>\<open>empty-\<close>, out-of-range criticalities
  set to 3) that these tests do not describe.

  The spec's contract: a missing header or malformed JSON gives a generated unique id and
  criticality 3; an empty \<^verbatim>\<open>workload_id\<close> gives a generated id; a criticality outside
  \<open>[1, 5]\<close> is clamped to the nearest bound; the default 3 is used when the field is
  absent. The JSON decoder \<open>decode\<close> and the generated id \<open>uid\<close> are parameters.
\<close>

definition extractWorkloadContext ::
  "(string \<Rightarrow> WorkloadContextJSON option) \<Rightarrow> string \<Rightarrow> (string \<rightharpoonup> string)
   \<Rightarrow> WorkloadContext" where
  "extractWorkloadContext decode uid headers =
     (case headers ''x-workload-context'' of
        None \<Rightarrow> \<lparr>GetWorkloadID = uid, GetCriticality = 3\<rparr>
      | Some headerValue \<Rightarrow>
          (case decode headerValue of
             None \<Rightarrow> \<lparr>GetWorkloadID = uid, GetCriticality = 3\<rparr>
           | Some j \<Rightarrow>
               \<lparr>GetWorkloadID =
                  (case json_workload_id j of
                     None \<Rightarrow> uid
                   | Some workloadID \<Rightarrow> if workloadID = [] then uid else workloadID),
                GetCriticality =
                  (case json_criticality j of
                     None \<Rightarrow> 3
                   | Some c \<Rightarrow> if c < 1 then 1 else if c > 5 then 5 else c)\<rparr>))"

section \<open>Properties of the registry\<close>

lemmas registry_eval =
  run_ops_def NewWorkloadRegistry_def WorkloadHandleNewRequest_def
  WorkloadHandleCompletedRequest_def WorkloadHandleDispatchedRequest_def Let_def
  freshMetrics_def Sub_def Second_def Minute_def maxDuration_def minDuration_def
  cleanup_def cleanupCheck_def workloads_Delete_def cleanupEntry_def isInactive_def
  GetRequestRate_def GetMetrics_def Seconds_def toDuration_def

subsection \<open>Dispatch updates the average wait time\<close>

lemma toDuration_close: "\<bar>real_of_int (toDuration x) - x\<bar> < 1"
  unfolding toDuration_def by (cases "0 \<le> x") (simp_all, linarith+)

lemma toDuration_of_int: "toDuration (real_of_int n) = n"
  by (simp add: toDuration_def)

text \<open>
  C1. \<^verbatim>\<open>WorkloadHandleDispatchedRequest\<close> leaves the registry as it is when the workload has
  no entry, and creates none. For a tracked workload the dispatched count grows by one; the
  first dispatch (count zero) stores the wait time itself, a later one stores
  \<open>alpha * wait + (1 - alpha) * previous\<close> as a duration, that is, with the fraction of a
  nanosecond dropped, where \<open>alpha\<close> is the entry's factor, or \<open>0.2\<close> when the factor
  is unset.
\<close>

theorem WorkloadHandleDispatchedRequest_ema:
  "(workloads wr w = None \<longrightarrow> WorkloadHandleDispatchedRequest wr w waitTime = wr) \<and>
   (\<forall>m. workloads wr w = Some m \<longrightarrow>
      (\<exists>m'. workloads (WorkloadHandleDispatchedRequest wr w waitTime) w = Some m' \<and>
         DispatchedCount m' = DispatchedCount m + 1 \<and>
         EMAAlpha m' = (if EMAAlpha m = 0 then 0.2 else EMAAlpha m) \<and>
         (DispatchedCount m = 0 \<longrightarrow> AverageWaitTime m' = waitTime) \<and>
         (DispatchedCount m \<noteq> 0 \<longrightarrow>
            AverageWaitTime m' =
              toDuration (EMAAlpha m' * real_of_int waitTime
                          + (1 - EMAAlpha m') * real_of_int (AverageWaitTime m)) \<and>
            \<bar>real_of_int (AverageWaitTime m')
               - (EMAAlpha m' * real_of_int waitTime
                  + (1 - EMAAlpha m') * real_of_int (AverageWaitTime m))\<bar> < 1))) \<and>
   (\<forall>v. v \<noteq> w \<longrightarrow>
      workloads (WorkloadHandleDispatchedRequest wr w waitTime) v = workloads wr v)"
  by (auto simp: WorkloadHandleDispatchedRequest_def Let_def toDuration_close split: option.splits)

text \<open>
  A first dispatch after 100 ns, a second after 200 ns (\<open>0.2 * 200 + 0.8 * 100 = 120\<close>),
  and a dispatch for a workload that was never seen.
\<close>

theorem WorkloadHandleDispatchedRequest_ema_witness:
  "(\<exists>m'. workloads (run_ops (NewWorkloadRegistry 0)
            [NewRequest 0 ''a'', DispatchedRequest ''a'' 100]) ''a'' = Some m' \<and>
         DispatchedCount m' = 1 \<and> AverageWaitTime m' = 100 \<and> EMAAlpha m' = 0.2) \<and>
   (\<exists>m'. workloads (run_ops (NewWorkloadRegistry 0)
            [NewRequest 0 ''a'', DispatchedRequest ''a'' 100, DispatchedRequest ''a'' 200])
          ''a'' = Some m' \<and>
         DispatchedCount m' = 2 \<and> AverageWaitTime m' = 120) \<and>
   WorkloadHandleDispatchedRequest (NewWorkloadRegistry 0) ''a'' 100 = NewWorkloadRegistry 0"
  using WorkloadHandleDispatchedRequest_ema
          [of "run_ops (NewWorkloadRegistry 0) [NewRequest 0 ''a'']" "''a''" 100]
        WorkloadHandleDispatchedRequest_ema
          [of "run_ops (NewWorkloadRegistry 0)
                 [NewRequest 0 ''a'', DispatchedRequest ''a'' 100]" "''a''" 200]
        WorkloadHandleDispatchedRequest_ema [of "NewWorkloadRegistry 0" "''a''" 100]
  by (simp add: registry_eval)

subsection \<open>The counters\<close>

lemma WorkloadHandleNewRequest_ok:
  "registry_ok wr \<Longrightarrow> registry_ok (WorkloadHandleNewRequest wr now w)"
  by (auto simp: registry_ok_def counters_ok_def WorkloadHandleNewRequest_def Let_def
        freshMetrics_def split: option.splits if_splits)

lemma WorkloadHandleDispatchedRequest_ok:
  "registry_ok wr \<Longrightarrow> registry_ok (WorkloadHandleDispatchedRequest wr w d)"
  by (auto simp: registry_ok_def counters_ok_def WorkloadHandleDispatchedRequest_def Let_def
        split: option.splits if_splits)

lemma WorkloadHandleCompletedRequest_ok:
  "registry_ok wr \<Longrightarrow> registry_ok (WorkloadHandleCompletedRequest wr w)"
  by (fastforce simp: registry_ok_def counters_ok_def WorkloadHandleCompletedRequest_def
        split: option.splits if_splits)

lemma cleanup_ok: "registry_ok wr \<Longrightarrow> registry_ok (cleanup wr now)"
  by (auto simp: registry_ok_def cleanup_def workloads_Delete_def split: if_splits)

lemma workloads_Delete_ok: "registry_ok wr \<Longrightarrow> registry_ok (workloads_Delete wr w)"
  by (auto simp: registry_ok_def workloads_Delete_def split: if_splits)

lemma apply_op_ok: "registry_ok wr \<Longrightarrow> registry_ok (apply_op wr e)"
  by (cases e)
     (simp_all add: WorkloadHandleNewRequest_ok WorkloadHandleDispatchedRequest_ok
        WorkloadHandleCompletedRequest_ok cleanup_ok workloads_Delete_ok)

lemma run_ops_ok: "registry_ok wr \<Longrightarrow> registry_ok (run_ops wr es)"
  unfolding run_ops_def by (induction es arbitrary: wr) (simp_all add: apply_op_ok)

lemma NewWorkloadRegistry_ok: "registry_ok (NewWorkloadRegistry wd)"
  by (simp add: registry_ok_def NewWorkloadRegistry_def)

text \<open>
  On a run of fewer than \<open>2 ^ 63\<close> calls from a new registry every counter stays in the
  range of a non-negative \<^verbatim>\<open>int64\<close>, so that no increment of the source wraps around.
\<close>

lemma counters_withinD:
  "counters_within n wr \<Longrightarrow> workloads wr w = Some m \<Longrightarrow> entry_within n m"
  by (simp add: counters_within_def)

lemma entry_within_step: "entry_within n m \<Longrightarrow> entry_within (n + 1) m"
  by (simp add: entry_within_def)

lemma entry_within_fresh: "0 \<le> n \<Longrightarrow> entry_within n (freshMetrics w t)"
  by (simp add: entry_within_def freshMetrics_def)

lemma apply_op_counters_within:
  assumes cw: "counters_within n wr" and n: "0 \<le> n"
  shows "counters_within (n + 1) (apply_op wr e)"
  unfolding counters_within_def
proof (intro allI impI)
  fix v m
  assume tracked: "workloads (apply_op wr e) v = Some m"
  have old: "entry_within (n + 1) m0" if "workloads wr u = Some m0" for u m0
    using counters_withinD [OF cw that] by (rule entry_within_step)
  show "entry_within (n + 1) m"
  proof (cases e)
    case (NewRequest now w)
    show ?thesis
    proof (cases "workloads wr w")
      case None
      from n have "entry_within n (freshMetrics w now)"
        by (rule entry_within_fresh)
      with tracked NewRequest None old [of v m] show ?thesis
        by (auto simp: WorkloadHandleNewRequest_def Let_def entry_within_def freshMetrics_def
              split: if_splits)
    next
      case (Some m0)
      from counters_withinD [OF cw Some] tracked NewRequest Some old [of v m] show ?thesis
        by (auto simp: WorkloadHandleNewRequest_def Let_def entry_within_def split: if_splits)
    qed
  next
    case (DispatchedRequest w d)
    show ?thesis
    proof (cases "workloads wr w")
      case None
      with tracked DispatchedRequest old [of v m] show ?thesis
        by (simp add: WorkloadHandleDispatchedRequest_def)
    next
      case (Some m0)
      from counters_withinD [OF cw Some] tracked DispatchedRequest Some old [of v m]
      show ?thesis
        by (auto simp: WorkloadHandleDispatchedRequest_def Let_def entry_within_def
              split: if_splits)
    qed
  next
    case (CompletedRequest w)
    show ?thesis
    proof (cases "workloads wr w")
      case None
      with tracked CompletedRequest old [of v m] show ?thesis
        by (simp add: WorkloadHandleCompletedRequest_def)
    next
      case (Some m0)
      from counters_withinD [OF cw Some] tracked CompletedRequest Some old [of v m]
      show ?thesis
        by (auto simp: WorkloadHandleCompletedRequest_def entry_within_def split: if_splits)
    qed
  next
    case (Cleanup now)
    with tracked old [of v m] show ?thesis
      by (auto simp: cleanup_def workloads_Delete_def split: if_splits)
  next
    case (DeleteEntry w)
    with tracked old [of v m] show ?thesis
      by (auto simp: workloads_Delete_def split: if_splits)
  qed
qed

lemma run_ops_counters_within:
  "counters_within n wr \<Longrightarrow> 0 \<le> n \<Longrightarrow>
   counters_within (n + int (length es)) (run_ops wr es)"
  unfolding run_ops_def
proof (induction es arbitrary: wr n)
  case Nil
  then show ?case by simp
next
  case (Cons e es)
  from apply_op_counters_within [OF Cons.prems, of e]
  have "counters_within (n + 1 + int (length es)) (foldl apply_op (apply_op wr e) es)"
    using Cons.prems(2) by (intro Cons.IH) simp_all
  moreover have "n + 1 + int (length es) = n + int (length (e # es))"
    by simp
  ultimately show ?case by simp
qed

lemma counters_within_int64:
  assumes "int (length es) < 2 ^ 63"
    and "workloads (run_ops (NewWorkloadRegistry wd) es) w = Some m"
  shows "0 \<le> TotalRequests m \<and> TotalRequests m < 2 ^ 63 \<and>
         0 \<le> ActiveRequests m \<and> ActiveRequests m < 2 ^ 63 \<and>
         0 \<le> SlidingWindowRequests m \<and> SlidingWindowRequests m < 2 ^ 63 \<and>
         0 \<le> DispatchedCount m \<and> DispatchedCount m < 2 ^ 63"
proof -
  have "counters_within 0 (NewWorkloadRegistry wd)"
    by (simp add: counters_within_def NewWorkloadRegistry_def)
  from run_ops_counters_within [OF this, of es]
  have "counters_within (int (length es)) (run_ops (NewWorkloadRegistry wd) es)"
    by simp
  from counters_withinD [OF this assms(2)] assms(1) show ?thesis
    by (simp add: entry_within_def)
qed

text \<open>
  C5. After any finite sequence of registry calls on a new registry (new requests and
  completions in any interleaving, with any number of completions, and dispatches,
  cleanups and the deletions of interrupted cleanups as well), the active-request counter
  of every tracked workload is at least 0.
\<close>

theorem ActiveRequests_never_negative:
  "workloads (run_ops (NewWorkloadRegistry wd) es) w = Some m \<Longrightarrow> 0 \<le> ActiveRequests m"
  using run_ops_ok [OF NewWorkloadRegistry_ok, of wd es]
  by (auto simp: registry_ok_def counters_ok_def)

text \<open>One new request followed by two completions: the counter stops at 0.\<close>

theorem ActiveRequests_never_negative_witness:
  "workloads (run_ops (NewWorkloadRegistry 0)
       [NewRequest 5 ''a'', CompletedRequest ''a'', CompletedRequest ''a'']) ''a''
     = Some (freshMetrics ''a'' 5 \<lparr>TotalRequests := 1, SlidingWindowRequests := 1\<rparr>) \<and>
   0 \<le> ActiveRequests (freshMetrics ''a'' 5 \<lparr>TotalRequests := 1, SlidingWindowRequests := 1\<rparr>)"
proof -
  have tracked: "workloads (run_ops (NewWorkloadRegistry 0)
       [NewRequest 5 ''a'', CompletedRequest ''a'', CompletedRequest ''a'']) ''a''
     = Some (freshMetrics ''a'' 5 \<lparr>TotalRequests := 1, SlidingWindowRequests := 1\<rparr>)"
    by (simp add: registry_eval)
  from ActiveRequests_never_negative [OF tracked] tracked show ?thesis by simp
qed

text \<open>
  C9. Every call that changes the registry keeps \<open>0 \<le> active \<le> total\<close> for every tracked
  workload. A new request adds one to both counters (counted from 0 for a workload not yet
  tracked); a completion changes nothing but the active counter, which it lowers by one
  when it is positive; and no call lowers the total of a workload that stays tracked.
\<close>

theorem counters_invariant:
  "(registry_ok wr \<longrightarrow> registry_ok (apply_op wr e)) \<and>
   (\<exists>m'. workloads (WorkloadHandleNewRequest wr now w) w = Some m' \<and>
      TotalRequests m' = (case workloads wr w of None \<Rightarrow> 0 | Some m \<Rightarrow> TotalRequests m) + 1 \<and>
      ActiveRequests m' = (case workloads wr w of None \<Rightarrow> 0 | Some m \<Rightarrow> ActiveRequests m) + 1) \<and>
   (\<forall>m. workloads wr w = Some m \<longrightarrow>
      workloads (WorkloadHandleCompletedRequest wr w) w =
        Some (if ActiveRequests m > 0 then m\<lparr>ActiveRequests := ActiveRequests m - 1\<rparr> else m)) \<and>
   (\<forall>v m m'. workloads wr v = Some m \<and> workloads (apply_op wr e) v = Some m' \<longrightarrow>
      TotalRequests m \<le> TotalRequests m')"
proof (intro conjI)
  show "registry_ok wr \<longrightarrow> registry_ok (apply_op wr e)"
    by (simp add: apply_op_ok)
  show "\<exists>m'. workloads (WorkloadHandleNewRequest wr now w) w = Some m' \<and>
      TotalRequests m' = (case workloads wr w of None \<Rightarrow> 0 | Some m \<Rightarrow> TotalRequests m) + 1 \<and>
      ActiveRequests m' = (case workloads wr w of None \<Rightarrow> 0 | Some m \<Rightarrow> ActiveRequests m) + 1"
    by (simp add: WorkloadHandleNewRequest_def Let_def freshMetrics_def split: option.splits)
  show "\<forall>m. workloads wr w = Some m \<longrightarrow>
      workloads (WorkloadHandleCompletedRequest wr w) w =
        Some (if ActiveRequests m > 0 then m\<lparr>ActiveRequests := ActiveRequests m - 1\<rparr> else m)"
    by (simp add: WorkloadHandleCompletedRequest_def)
  show "\<forall>v m m'. workloads wr v = Some m \<and> workloads (apply_op wr e) v = Some m' \<longrightarrow>
      TotalRequests m \<le> TotalRequests m'"
    by (cases e)
       (auto simp: WorkloadHandleNewRequest_def WorkloadHandleDispatchedRequest_def
          WorkloadHandleCompletedRequest_def cleanup_def workloads_Delete_def Let_def
          split: option.splits if_splits)
qed

text \<open>A completion after one new request: the invariant holds before and after.\<close>

theorem counters_invariant_witness:
  "registry_ok (run_ops (NewWorkloadRegistry 0) [NewRequest 5 ''a'']) \<and>
   registry_ok (apply_op (run_ops (NewWorkloadRegistry 0) [NewRequest 5 ''a''])
                  (CompletedRequest ''a'')) \<and>
   workloads (run_ops (NewWorkloadRegistry 0) [NewRequest 5 ''a'']) ''a''
     = Some (freshMetrics ''a'' 5
         \<lparr>TotalRequests := 1, ActiveRequests := 1, SlidingWindowRequests := 1\<rparr>) \<and>
   workloads (WorkloadHandleCompletedRequest
       (run_ops (NewWorkloadRegistry 0) [NewRequest 5 ''a'']) ''a'') ''a''
     = Some (freshMetrics ''a'' 5 \<lparr>TotalRequests := 1, SlidingWindowRequests := 1\<rparr>)"
proof -
  let ?wr = "run_ops (NewWorkloadRegistry 0) [NewRequest 5 ''a'']"
  let ?m = "freshMetrics ''a'' 5
         \<lparr>TotalRequests := 1, ActiveRequests := 1, SlidingWindowRequests := 1\<rparr>"
  have ok: "registry_ok ?wr"
    by (rule run_ops_ok [OF NewWorkloadRegistry_ok])
  have tracked: "workloads ?wr ''a'' = Some ?m"
    by (simp add: registry_eval)
  from counters_invariant [of ?wr "CompletedRequest ''a''" 0 "''a''"] ok tracked
  show ?thesis by (simp add: freshMetrics_def)
qed

subsection \<open>Cleanup\<close>

lemma Sub_exceeds:
  "d < maxDuration \<Longrightarrow> minDuration \<le> d \<Longrightarrow> Sub t u > d \<longleftrightarrow> t - u > d"
  by (auto simp: Sub_def maxDuration_def minDuration_def)

lemma Sub_exceeds_threshold: "Sub t u > 5 * Minute \<longleftrightarrow> t - u > 5 * Minute"
  by (rule Sub_exceeds) (simp_all add: Minute_def Second_def maxDuration_def minDuration_def)

text \<open>
  A cleanup that no other call interrupts removes the entry of a tracked workload exactly
  when its active counter is 0 and more than five minutes have passed since its last
  request, and leaves every other entry as it was. Cleanup creates no entry. A single
  visit with nothing between its halves does the same at its key.
\<close>

lemma cleanup_uninterrupted:
  "(workloads wr w = None \<longrightarrow> workloads (cleanup wr now) w = None) \<and>
   (\<forall>m. workloads wr w = Some m \<longrightarrow>
      workloads (cleanup wr now) w =
        (if ActiveRequests m = 0 \<and> now - LastRequestTime m > 5 * Minute then None
         else Some m) \<and>
      (ActiveRequests m > 0 \<longrightarrow> workloads (cleanup wr now) w = Some m))"
  by (simp add: cleanup_def cleanupCheck_def workloads_Delete_def isInactive_def
        Sub_exceeds_threshold)

lemma cleanupEntry_uninterrupted:
  "workloads (cleanupEntry wr now w []) w = workloads (cleanup wr now) w"
  by (simp add: cleanupEntry_def cleanup_def run_ops_def)

text \<open>
  C8. The claim does not hold for the code: the check and the deletion of a visit are not
  one step. The workload \<open>w\<close> had one request at time 0, which completed. A cleanup at
  ten minutes finds its entry inactive; before the cleanup deletes it, a new request for
  \<open>w\<close> arrives and sets the active counter of the entry to 1 and its last request time to
  ten minutes; the cleanup then deletes this entry. A cleanup that starts after the new
  request keeps the entry.
\<close>

theorem cleanup_deletes_active_entry:
  "cleanupCheck (run_ops (NewWorkloadRegistry 0) [NewRequest 0 ''w'', CompletedRequest ''w''])
     (10 * Minute) ''w'' \<and>
   workloads (run_ops (run_ops (NewWorkloadRegistry 0)
                [NewRequest 0 ''w'', CompletedRequest ''w''])
        [NewRequest (10 * Minute) ''w'']) ''w''
     = Some \<lparr>WorkloadID = ''w'', TotalRequests = 2, ActiveRequests = 1,
             SlidingWindowRequests = 1, WindowStartTime = 10 * Minute,
             LastRequestTime = 10 * Minute, AverageWaitTime = 0, DispatchedCount = 0,
             EMAAlpha = 0\<rparr> \<and>
   workloads (cleanupEntry (run_ops (NewWorkloadRegistry 0)
                [NewRequest 0 ''w'', CompletedRequest ''w''])
        (10 * Minute) ''w'' [NewRequest (10 * Minute) ''w'']) ''w'' = None \<and>
   workloads (cleanup (run_ops (run_ops (NewWorkloadRegistry 0)
                [NewRequest 0 ''w'', CompletedRequest ''w''])
        [NewRequest (10 * Minute) ''w'']) (10 * Minute)) ''w''
     = Some \<lparr>WorkloadID = ''w'', TotalRequests = 2, ActiveRequests = 1,
             SlidingWindowRequests = 1, WindowStartTime = 10 * Minute,
             LastRequestTime = 10 * Minute, AverageWaitTime = 0, DispatchedCount = 0,
             EMAAlpha = 0\<rparr>"
  by (simp add: registry_eval)

subsection \<open>The request rate\<close>

lemma GetRequestRate_finite: "isFin (GetRequestRate wr now w)"
  by (simp add: GetRequestRate_def Let_def split: option.splits)

lemma Sub_nonneg: "u \<le> t \<Longrightarrow> 0 \<le> Sub t u"
  by (simp add: Sub_def maxDuration_def minDuration_def)

lemma Sub_eq_0: "Sub t u = 0 \<longleftrightarrow> t = u"
  by (simp add: Sub_def maxDuration_def minDuration_def)

lemma Seconds_eq_0: "Seconds d = 0 \<longleftrightarrow> d = 0"
  by (simp add: Seconds_def)

lemma Seconds_nonneg: "0 \<le> d \<Longrightarrow> 0 \<le> Seconds d"
  by (simp add: Seconds_def)

lemma apply_op_window_counts_ok:
  "window_counts_ok wr \<Longrightarrow> window_counts_ok (apply_op wr e)"
  by (cases e)
     (fastforce simp: window_counts_ok_def WorkloadHandleNewRequest_def
          WorkloadHandleDispatchedRequest_def WorkloadHandleCompletedRequest_def cleanup_def
          workloads_Delete_def Let_def freshMetrics_def
          split: option.splits if_splits)+

lemma run_ops_window_counts_ok:
  "window_counts_ok wr \<Longrightarrow> window_counts_ok (run_ops wr es)"
  unfolding run_ops_def
  by (induction es arbitrary: wr) (simp_all add: apply_op_window_counts_ok)

lemma NewWorkloadRegistry_window_counts_ok: "window_counts_ok (NewWorkloadRegistry wd)"
  by (simp add: window_counts_ok_def NewWorkloadRegistry_def)

lemma apply_op_windows_started_by:
  "windows_started_by t wr \<Longrightarrow> read_by t e \<Longrightarrow> windows_started_by t (apply_op wr e)"
  by (cases e)
     (fastforce simp: windows_started_by_def WorkloadHandleNewRequest_def
          WorkloadHandleDispatchedRequest_def WorkloadHandleCompletedRequest_def cleanup_def
          workloads_Delete_def Let_def freshMetrics_def
          split: option.splits if_splits)+

lemma run_ops_windows_started_by:
  "windows_started_by t wr \<Longrightarrow> list_all (read_by t) es \<Longrightarrow>
   windows_started_by t (run_ops wr es)"
  unfolding run_ops_def
  by (induction es arbitrary: wr) (simp_all add: apply_op_windows_started_by)

lemma NewWorkloadRegistry_windows_started_by:
  "windows_started_by t (NewWorkloadRegistry wd)"
  by (simp add: windows_started_by_def NewWorkloadRegistry_def)

lemma GetRequestRate_nonneg:
  assumes "window_counts_ok wr" and "windows_started_by now wr"
  shows "\<exists>r. GetRequestRate wr now w = Fin r \<and> 0 \<le> r"
proof (cases "workloads wr w")
  case None
  then show ?thesis by (simp add: GetRequestRate_def)
next
  case (Some m)
  with assms have swr: "1 \<le> SlidingWindowRequests m" and start: "WindowStartTime m \<le> now"
    by (auto simp: window_counts_ok_def windows_started_by_def)
  from start have "0 \<le> Seconds (Sub now (WindowStartTime m))"
    by (simp add: Seconds_nonneg Sub_nonneg)
  with swr Some show ?thesis
    by (simp add: GetRequestRate_def Let_def)
qed

text \<open>
  C10. \<^verbatim>\<open>GetRequestRate\<close> returns a finite number in every state and at every instant: the
  division is reached only with a divisor other than zero. It returns 0 for a workload that
  is not tracked, for a window of age exactly zero and for an expired window. In every
  state reached from a new registry the window count of a tracked workload is not
  negative, and the rate read at an instant not earlier than the clock readings of the
  calls before it (the process clock is monotonic) is not negative.
\<close>

theorem GetRequestRate_total_nonneg:
  "isFin (GetRequestRate wr now w) \<and>
   (workloads wr w = None \<longrightarrow> GetRequestRate wr now w = Fin 0) \<and>
   (\<forall>m. workloads wr w = Some m \<longrightarrow>
      (now = WindowStartTime m \<longrightarrow> GetRequestRate wr now w = Fin 0) \<and>
      (Sub now (WindowStartTime m) > windowDuration wr \<longrightarrow>
         GetRequestRate wr now w = Fin 0)) \<and>
   (\<forall>m. workloads (run_ops (NewWorkloadRegistry wd) es) w = Some m \<longrightarrow>
      0 \<le> SlidingWindowRequests m) \<and>
   (list_all (read_by now) es \<longrightarrow>
      (\<exists>r. GetRequestRate (run_ops (NewWorkloadRegistry wd) es) now w = Fin r \<and> 0 \<le> r))"
proof (intro conjI)
  show "isFin (GetRequestRate wr now w)"
    by (rule GetRequestRate_finite)
  show "workloads wr w = None \<longrightarrow> GetRequestRate wr now w = Fin 0"
    by (simp add: GetRequestRate_def)
  show "\<forall>m. workloads wr w = Some m \<longrightarrow>
      (now = WindowStartTime m \<longrightarrow> GetRequestRate wr now w = Fin 0) \<and>
      (Sub now (WindowStartTime m) > windowDuration wr \<longrightarrow>
         GetRequestRate wr now w = Fin 0)"
    by (simp add: GetRequestRate_def Let_def Seconds_eq_0 Sub_eq_0)
  show "\<forall>m. workloads (run_ops (NewWorkloadRegistry wd) es) w = Some m \<longrightarrow>
      0 \<le> SlidingWindowRequests m"
    using run_ops_window_counts_ok [OF NewWorkloadRegistry_window_counts_ok, of wd es]
    by (force simp: window_counts_ok_def)
  show "list_all (read_by now) es \<longrightarrow>
      (\<exists>r. GetRequestRate (run_ops (NewWorkloadRegistry wd) es) now w = Fin r \<and> 0 \<le> r)"
    by (simp add: GetRequestRate_nonneg run_ops_window_counts_ok
          NewWorkloadRegistry_window_counts_ok run_ops_windows_started_by
          NewWorkloadRegistry_windows_started_by)
qed

text \<open>
  Two requests, at 0 s and at 1 s: the rate is 1 per second at 2 s, and 0 at 0 s (window of
  age zero), at 61 s (window expired) and for a workload never seen.
\<close>

theorem GetRequestRate_total_nonneg_witness:
  "list_all (read_by (2 * Second)) [NewRequest 0 ''a'', NewRequest Second ''a''] \<and>
   GetRequestRate (run_ops (NewWorkloadRegistry 0) [NewRequest 0 ''a'', NewRequest Second ''a''])
      (2 * Second) ''a'' = Fin 1 \<and>
   GetRequestRate (run_ops (NewWorkloadRegistry 0) [NewRequest 0 ''a'', NewRequest Second ''a''])
      0 ''a'' = Fin 0 \<and>
   GetRequestRate (run_ops (NewWorkloadRegistry 0) [NewRequest 0 ''a'', NewRequest Second ''a''])
      (61 * Second) ''a'' = Fin 0 \<and>
   GetRequestRate (run_ops (NewWorkloadRegistry 0) [NewRequest 0 ''a'', NewRequest Second ''a''])
      (2 * Second) ''b'' = Fin 0"
  using GetRequestRate_total_nonneg
          [of "run_ops (NewWorkloadRegistry 0) [NewRequest 0 ''a'', NewRequest Second ''a'']"
              "2 * Second" "''a''" 0 "[NewRequest 0 ''a'', NewRequest Second ''a'']"]
        GetRequestRate_total_nonneg
          [of "run_ops (NewWorkloadRegistry 0) [NewRequest 0 ''a'', NewRequest Second ''a'']"
              "2 * Second" "''b''" 0 "[NewRequest 0 ''a'', NewRequest Second ''a'']"]
  by (simp add: registry_eval)

section \<open>Properties of the ordering policy\<close>

lemmas policy_eval =
  computeScore_def weightedScore_def effectiveContext_def workloadAvgWaitTime_def
  workloadRequestRate_def NewWorkloadAwarePolicyWithDefaults_def NewWorkloadAwarePolicy_def
  DefaultWorkloadAwarePolicyConfig_def fsub_def Less_def signedInf_def

subsection \<open>Scores under the default configuration\<close>

text \<open>
  C2, as the code has it. Under the default configuration, and when the request rate of
  both workloads is 0, an item of criticality 1 whose workload has an average wait time of
  60 seconds scores \<open>0.4 * 1 + 0.4 * 0.2 = 0.48\<close>, an item of criticality 5 whose workload
  has average wait time 0 scores \<open>0.4 * 0 + 0.4 * 1.0 = 0.40\<close>, and the first is
  dispatched before the second.
\<close>

theorem anti_starvation_default_weights:
  assumes "config p = DefaultWorkloadAwarePolicyConfig"
    and "GetWorkloadContext (OriginalRequest a)
           = Some \<lparr>GetWorkloadID = wa, GetCriticality = 1\<rparr>"
    and "GetWorkloadContext (OriginalRequest b)
           = Some \<lparr>GetWorkloadID = wb, GetCriticality = 5\<rparr>"
    and "workloadAvgWaitTime p wa = 60" and "workloadRequestRate p clockA wa = Fin 0"
    and "workloadAvgWaitTime p wb = 0" and "workloadRequestRate p clockB wb = Fin 0"
  shows "computeScore p a now clockA = Fin (0.4 * 1 + 0.4 * 0.2) \<and>
         computeScore p a now clockA = Fin 0.48 \<and>
         computeScore p b now clockB = Fin (0.4 * 0 + 0.4 * 1.0) \<and>
         computeScore p b now clockB = Fin 0.40 \<and>
         fgt (computeScore p a now clockA) (computeScore p b now clockB) \<and>
         Less p now clockA clockB (Some a) (Some b)"
  using assms
  by (simp add: computeScore_def weightedScore_def effectiveContext_def
        DefaultWorkloadAwarePolicyConfig_def fsub_def Less_def)

text \<open>
  The workload \<open>slow\<close> was dispatched once after 60 s and its window has expired at 61 s;
  the workload \<open>fresh\<close> is not tracked.
\<close>

theorem anti_starvation_default_weights_witness:
  "computeScore
     (NewWorkloadAwarePolicyWithDefaults (Some (run_ops (NewWorkloadRegistry 0)
        [NewRequest 0 ''slow'', DispatchedRequest ''slow'' (60 * Second)])))
     \<lparr>OriginalRequest = \<lparr>ID = ''r1'', GetWorkloadContext =
          Some \<lparr>GetWorkloadID = ''slow'', GetCriticality = 1\<rparr>\<rparr>, EnqueueTime = 0\<rparr> (61 * Second) (61 * Second) = Fin 0.48 \<and>
   computeScore
     (NewWorkloadAwarePolicyWithDefaults (Some (run_ops (NewWorkloadRegistry 0)
        [NewRequest 0 ''slow'', DispatchedRequest ''slow'' (60 * Second)])))
     \<lparr>OriginalRequest = \<lparr>ID = ''r2'', GetWorkloadContext =
          Some \<lparr>GetWorkloadID = ''fresh'', GetCriticality = 5\<rparr>\<rparr>, EnqueueTime = (61 * Second)\<rparr> (61 * Second) (61 * Second) = Fin 0.40 \<and>
   Less
     (NewWorkloadAwarePolicyWithDefaults (Some (run_ops (NewWorkloadRegistry 0)
        [NewRequest 0 ''slow'', DispatchedRequest ''slow'' (60 * Second)])))
     (61 * Second) (61 * Second) (61 * Second)
     (Some \<lparr>OriginalRequest = \<lparr>ID = ''r1'', GetWorkloadContext =
          Some \<lparr>GetWorkloadID = ''slow'', GetCriticality = 1\<rparr>\<rparr>, EnqueueTime = 0\<rparr>)
     (Some \<lparr>OriginalRequest = \<lparr>ID = ''r2'', GetWorkloadContext =
          Some \<lparr>GetWorkloadID = ''fresh'', GetCriticality = 5\<rparr>\<rparr>, EnqueueTime = (61 * Second)\<rparr>)"
proof -
  define p where "p = NewWorkloadAwarePolicyWithDefaults (Some (run_ops (NewWorkloadRegistry 0)
        [NewRequest 0 ''slow'', DispatchedRequest ''slow'' (60 * Second)]))"
  define a where "a = \<lparr>OriginalRequest = \<lparr>ID = ''r1'', GetWorkloadContext =
          Some \<lparr>GetWorkloadID = ''slow'', GetCriticality = 1\<rparr>\<rparr>, EnqueueTime = 0\<rparr>"
  define b where "b = \<lparr>OriginalRequest = \<lparr>ID = ''r2'', GetWorkloadContext =
          Some \<lparr>GetWorkloadID = ''fresh'', GetCriticality = 5\<rparr>\<rparr>, EnqueueTime = (61 * Second)\<rparr>"
  have cfg: "config p = DefaultWorkloadAwarePolicyConfig"
    by (simp add: p_def NewWorkloadAwarePolicyWithDefaults_def NewWorkloadAwarePolicy_def)
  have ctx_a: "GetWorkloadContext (OriginalRequest a)
      = Some \<lparr>GetWorkloadID = ''slow'', GetCriticality = 1\<rparr>"
    by (simp add: a_def)
  have ctx_b: "GetWorkloadContext (OriginalRequest b)
      = Some \<lparr>GetWorkloadID = ''fresh'', GetCriticality = 5\<rparr>"
    by (simp add: b_def)
  have wait_a: "workloadAvgWaitTime p ''slow'' = 60"
    by (simp add: p_def policy_eval registry_eval)
  have rate_a: "workloadRequestRate p (61 * Second) ''slow'' = Fin 0"
    by (simp add: p_def policy_eval registry_eval)
  have wait_b: "workloadAvgWaitTime p ''fresh'' = 0"
    by (simp add: p_def policy_eval registry_eval)
  have rate_b: "workloadRequestRate p (61 * Second) ''fresh'' = Fin 0"
    by (simp add: p_def policy_eval registry_eval)
  from anti_starvation_default_weights
         [OF cfg ctx_a ctx_b wait_a rate_a wait_b rate_b, of "61 * Second"]
  show ?thesis
    by (simp add: p_def a_def b_def)
qed

text \<open>
  The claim as stated fails when a request rate is not 0. The workload \<open>slow\<close> had a
  request at 0 s that was dispatched after 60 s, and has a new request at 120 s; the
  workload \<open>fresh\<close> has one request, at 0 s, not yet dispatched. One millisecond after
  120 s the window of \<open>fresh\<close> has expired and the window of \<open>slow\<close> holds one request
  of age 1 ms, a rate of 1000 per second: the item of criticality 1, whose workload has an
  average wait time of 60 s, scores \<open>0.28\<close> and not \<open>0.48\<close>, the item of criticality 5,
  whose workload has average wait time 0, scores \<open>0.40\<close>, and the first is not before
  the second.
\<close>

theorem anti_starvation_rate_penalty:
  "workloadAvgWaitTime
     (NewWorkloadAwarePolicyWithDefaults (Some (run_ops (NewWorkloadRegistry 0)
        [NewRequest 0 ''fresh'', NewRequest 0 ''slow'',
         DispatchedRequest ''slow'' (60 * Second), NewRequest (120 * Second) ''slow'']))) ''slow'' = 60 \<and>
   workloadAvgWaitTime
     (NewWorkloadAwarePolicyWithDefaults (Some (run_ops (NewWorkloadRegistry 0)
        [NewRequest 0 ''fresh'', NewRequest 0 ''slow'',
         DispatchedRequest ''slow'' (60 * Second), NewRequest (120 * Second) ''slow'']))) ''fresh'' = 0 \<and>
   workloadRequestRate
     (NewWorkloadAwarePolicyWithDefaults (Some (run_ops (NewWorkloadRegistry 0)
        [NewRequest 0 ''fresh'', NewRequest 0 ''slow'',
         DispatchedRequest ''slow'' (60 * Second), NewRequest (120 * Second) ''slow'']))) (120 * Second + 1000000) ''slow'' = Fin 1000 \<and>
   workloadRequestRate
     (NewWorkloadAwarePolicyWithDefaults (Some (run_ops (NewWorkloadRegistry 0)
        [NewRequest 0 ''fresh'', NewRequest 0 ''slow'',
         DispatchedRequest ''slow'' (60 * Second), NewRequest (120 * Second) ''slow'']))) (120 * Second + 1000000) ''fresh'' = Fin 0 \<and>
   computeScore
     (NewWorkloadAwarePolicyWithDefaults (Some (run_ops (NewWorkloadRegistry 0)
        [NewRequest 0 ''fresh'', NewRequest 0 ''slow'',
         DispatchedRequest ''slow'' (60 * Second), NewRequest (120 * Second) ''slow''])))
     \<lparr>OriginalRequest = \<lparr>ID = ''r1'', GetWorkloadContext =
          Some \<lparr>GetWorkloadID = ''slow'', GetCriticality = 1\<rparr>\<rparr>, EnqueueTime = (120 * Second)\<rparr>
     (120 * Second + 1000000) (120 * Second + 1000000) = Fin 0.28 \<and>
   computeScore
     (NewWorkloadAwarePolicyWithDefaults (Some (run_ops (NewWorkloadRegistry 0)
        [NewRequest 0 ''fresh'', NewRequest 0 ''slow'',
         DispatchedRequest ''slow'' (60 * Second), NewRequest (120 * Second) ''slow''])))
     \<lparr>OriginalRequest = \<lparr>ID = ''r2'', GetWorkloadContext =
          Some \<lparr>GetWorkloadID = ''fresh'', GetCriticality = 5\<rparr>\<rparr>, EnqueueTime = 0\<rparr>
     (120 * Second + 1000000) (120 * Second + 1000000) = Fin 0.40 \<and>
   \<not> Less
     (NewWorkloadAwarePolicyWithDefaults (Some (run_ops (NewWorkloadRegistry 0)
        [NewRequest 0 ''fresh'', NewRequest 0 ''slow'',
         DispatchedRequest ''slow'' (60 * Second), NewRequest (120 * Second) ''slow''])))
     (120 * Second + 1000000) (120 * Second + 1000000) (120 * Second + 1000000)
     (Some \<lparr>OriginalRequest = \<lparr>ID = ''r1'', GetWorkloadContext =
          Some \<lparr>GetWorkloadID = ''slow'', GetCriticality = 1\<rparr>\<rparr>, EnqueueTime = (120 * Second)\<rparr>)
     (Some \<lparr>OriginalRequest = \<lparr>ID = ''r2'', GetWorkloadContext =
          Some \<lparr>GetWorkloadID = ''fresh'', GetCriticality = 5\<rparr>\<rparr>, EnqueueTime = 0\<rparr>)"
  by (simp add: policy_eval registry_eval)

subsection \<open>The criticality that is scored\<close>

text \<open>
  C3, as the code has it. A request without a workload context is scored as workload
  \<open>default\<close> with criticality 3. A context's criticality is used as it is when it lies in
  \<open>[1, 5]\<close> and is replaced by 3 otherwise, whether it is zero, negative or above 5;
  no value is clamped to the nearest bound. An item with an out-of-range criticality
  therefore scores as the same item with criticality 3.
\<close>

theorem effectiveContext_criticality:
  "effectiveContext None = (''default'', 3) \<and>
   effectiveContext (Some c) =
     (GetWorkloadID c,
      if 1 \<le> GetCriticality c \<and> GetCriticality c \<le> 5 then GetCriticality c else 3) \<and>
   (GetCriticality c < 1 \<or> GetCriticality c > 5 \<longrightarrow>
      computeScore p
        (item\<lparr>OriginalRequest := (OriginalRequest item)\<lparr>GetWorkloadContext := Some c\<rparr>\<rparr>)
        now clock =
      computeScore p
        (item\<lparr>OriginalRequest := (OriginalRequest item)
           \<lparr>GetWorkloadContext := Some (c\<lparr>GetCriticality := 3\<rparr>)\<rparr>\<rparr>)
        now clock)"
  by (auto simp: effectiveContext_def computeScore_def)

text \<open>Criticality 6 and criticality 3 give the same score, \<open>0.24\<close>, with no registry.\<close>

theorem effectiveContext_criticality_witness:
  "effectiveContext (Some \<lparr>GetWorkloadID = ''w'', GetCriticality = 6\<rparr>) = (''w'', 3) \<and>
   computeScore (NewWorkloadAwarePolicyWithDefaults None)
     \<lparr>OriginalRequest = \<lparr>ID = ''r'', GetWorkloadContext =
          Some \<lparr>GetWorkloadID = ''w'', GetCriticality = 6\<rparr>\<rparr>, EnqueueTime = 0\<rparr> 0 0 =
   computeScore (NewWorkloadAwarePolicyWithDefaults None)
     \<lparr>OriginalRequest = \<lparr>ID = ''r'', GetWorkloadContext =
          Some \<lparr>GetWorkloadID = ''w'', GetCriticality = 3\<rparr>\<rparr>, EnqueueTime = 0\<rparr> 0 0 \<and>
   computeScore (NewWorkloadAwarePolicyWithDefaults None)
     \<lparr>OriginalRequest = \<lparr>ID = ''r'', GetWorkloadContext =
          Some \<lparr>GetWorkloadID = ''w'', GetCriticality = 3\<rparr>\<rparr>, EnqueueTime = 0\<rparr> 0 0 = Fin 0.24"
  using effectiveContext_criticality
          [of "\<lparr>GetWorkloadID = ''w'', GetCriticality = 6\<rparr>"
              "NewWorkloadAwarePolicyWithDefaults None"
              "\<lparr>OriginalRequest = \<lparr>ID = ''r'', GetWorkloadContext =
          Some \<lparr>GetWorkloadID = ''w'', GetCriticality = 3\<rparr>\<rparr>, EnqueueTime = 0\<rparr>" 0 0]
  by (simp add: policy_eval)

text \<open>
  The claim as stated fails: criticality 6 is scored as 3, not as the clamped value 5,
  and criticality 0 is scored as 3, not as 1. With no registry the scores are \<open>0.24\<close>
  where clamping would give \<open>0.4\<close> and \<open>0.08\<close>.
\<close>

theorem effectiveContext_not_clamped:
  "effectiveContext (Some \<lparr>GetWorkloadID = ''w'', GetCriticality = 6\<rparr>) = (''w'', 3) \<and>
   max 1 (min 5 (6::int)) = 5 \<and>
   effectiveContext (Some \<lparr>GetWorkloadID = ''w'', GetCriticality = 0\<rparr>) = (''w'', 3) \<and>
   max 1 (min 5 (0::int)) = 1 \<and>
   computeScore (NewWorkloadAwarePolicyWithDefaults None)
     \<lparr>OriginalRequest = \<lparr>ID = ''r'', GetWorkloadContext =
          Some \<lparr>GetWorkloadID = ''w'', GetCriticality = 6\<rparr>\<rparr>, EnqueueTime = 0\<rparr> 0 0 = Fin 0.24 \<and>
   computeScore (NewWorkloadAwarePolicyWithDefaults None)
     \<lparr>OriginalRequest = \<lparr>ID = ''r'', GetWorkloadContext =
          Some \<lparr>GetWorkloadID = ''w'', GetCriticality = 5\<rparr>\<rparr>, EnqueueTime = 0\<rparr> 0 0 = Fin 0.4 \<and>
   computeScore (NewWorkloadAwarePolicyWithDefaults None)
     \<lparr>OriginalRequest = \<lparr>ID = ''r'', GetWorkloadContext =
          Some \<lparr>GetWorkloadID = ''w'', GetCriticality = 0\<rparr>\<rparr>, EnqueueTime = 0\<rparr> 0 0 = Fin 0.24 \<and>
   computeScore (NewWorkloadAwarePolicyWithDefaults None)
     \<lparr>OriginalRequest = \<lparr>ID = ''r'', GetWorkloadContext =
          Some \<lparr>GetWorkloadID = ''w'', GetCriticality = 1\<rparr>\<rparr>, EnqueueTime = 0\<rparr> 0 0 = Fin 0.08"
  by (simp add: policy_eval)

subsection \<open>The order of dispatch\<close>

lemma fgt_irrefl: "\<not> fgt x x"
  by (cases x) simp_all

lemma fgt_asym: "fgt x y \<Longrightarrow> \<not> fgt y x"
  by (cases x; cases y) simp_all

lemma fgt_trans: "fgt x y \<Longrightarrow> fgt y z \<Longrightarrow> fgt x z"
  by (cases x; cases y; cases z) simp_all

lemma not_fne: "\<not> fne x y \<longleftrightarrow> x = y \<and> x \<noteq> NaN"
  by (cases x; cases y) auto

lemma fgt_total: "x \<noteq> NaN \<Longrightarrow> y \<noteq> NaN \<Longrightarrow> x \<noteq> y \<Longrightarrow> fgt x y \<or> fgt y x"
  by (cases x; cases y) auto

lemma fgt_fne: "fgt x y \<Longrightarrow> fne x y"
  by (cases x; cases y) auto

lemma Less_Some:
  "Less p now ca cb (Some x) (Some y) \<longleftrightarrow>
     fgt (computeScore p x now ca) (computeScore p y now cb) \<or>
     (computeScore p x now ca = computeScore p y now cb \<and> computeScore p x now ca \<noteq> NaN \<and>
      EnqueueTime x < EnqueueTime y)"
  using not_fne [of "computeScore p x now ca" "computeScore p y now cb"]
        fgt_fne [of "computeScore p x now ca" "computeScore p y now cb"]
        fgt_irrefl [of "computeScore p x now ca"]
  by (auto simp: Less_def Let_def)

lemma Less_irrefl: "\<not> Less p t t t a a"
  by (cases a) (simp_all add: Less_Some fgt_irrefl, simp add: Less_def)

lemma Less_trans: "Less p t t t a b \<Longrightarrow> Less p t t t b c \<Longrightarrow> Less p t t t a c"
proof (cases a; cases b; cases c)
  fix x y z
  assume abc: "a = Some x" "b = Some y" "c = Some z"
  assume "Less p t t t a b" "Less p t t t b c"
  with abc show ?thesis
    by (auto simp: Less_Some dest: fgt_trans)
qed (simp_all add: Less_def)

lemma Less_total:
  assumes "computeScore p x t t \<noteq> NaN" and "computeScore p y t t \<noteq> NaN"
    and "EnqueueTime x \<noteq> EnqueueTime y"
  shows "Less p t t t (Some x) (Some y) \<or> Less p t t t (Some y) (Some x)"
proof (cases "computeScore p x t t = computeScore p y t t")
  case True
  with assms show ?thesis by (auto simp: Less_Some)
next
  case False
  with fgt_total [OF assms(1,2)] show ?thesis by (auto simp: Less_Some)
qed

text \<open>
  C6, as the code has it. A nil item is never before anything, and every item is before
  nil. Of two items the one with the higher score is first; when the scores are equal the
  one enqueued earlier is first. With all scores taken at one instant this order is
  irreflexive and transitive, and it orders every two items whose scores are numbers and
  whose enqueue times differ. It is not total: two items with equal scores and equal
  enqueue times are ordered in neither direction.
\<close>

theorem Less_order:
  "\<not> Less p now ca cb None None \<and>
   \<not> Less p now ca cb None (Some y) \<and>
   Less p now ca cb (Some x) None \<and>
   (fgt (computeScore p x now ca) (computeScore p y now cb) \<longrightarrow>
      Less p now ca cb (Some x) (Some y)) \<and>
   (fgt (computeScore p y now cb) (computeScore p x now ca) \<longrightarrow>
      \<not> Less p now ca cb (Some x) (Some y)) \<and>
   (\<not> fne (computeScore p x now ca) (computeScore p y now cb) \<longrightarrow>
      (Less p now ca cb (Some x) (Some y) \<longleftrightarrow> EnqueueTime x < EnqueueTime y)) \<and>
   \<not> Less p t t t a a \<and>
   (Less p t t t a b \<and> Less p t t t b c \<longrightarrow> Less p t t t a c) \<and>
   (computeScore p x t t \<noteq> NaN \<and> computeScore p y t t \<noteq> NaN \<and>
    EnqueueTime x \<noteq> EnqueueTime y \<longrightarrow>
      Less p t t t (Some x) (Some y) \<or> Less p t t t (Some y) (Some x))"
proof (intro conjI)
  show "\<not> Less p now ca cb None None" "\<not> Less p now ca cb None (Some y)"
       "Less p now ca cb (Some x) None"
    by (simp_all add: Less_def)
  show "fgt (computeScore p x now ca) (computeScore p y now cb) \<longrightarrow>
      Less p now ca cb (Some x) (Some y)"
    by (simp add: Less_Some)
  show "fgt (computeScore p y now cb) (computeScore p x now ca) \<longrightarrow>
      \<not> Less p now ca cb (Some x) (Some y)"
    by (auto simp: Less_Some dest: fgt_asym fgt_irrefl [THEN notE])
  show "\<not> fne (computeScore p x now ca) (computeScore p y now cb) \<longrightarrow>
      (Less p now ca cb (Some x) (Some y) \<longleftrightarrow> EnqueueTime x < EnqueueTime y)"
    by (simp add: Less_def)
  show "\<not> Less p t t t a a"
    by (rule Less_irrefl)
  show "Less p t t t a b \<and> Less p t t t b c \<longrightarrow> Less p t t t a c"
    by (blast intro: Less_trans)
  show "computeScore p x t t \<noteq> NaN \<and> computeScore p y t t \<noteq> NaN \<and>
    EnqueueTime x \<noteq> EnqueueTime y \<longrightarrow>
      Less p t t t (Some x) (Some y) \<or> Less p t t t (Some y) (Some x)"
    using Less_total [of p x t y] by simp
qed

text \<open>
  With no registry: criticality 5 is before criticality 1 and not the reverse, and of
  two items of criticality 3 the one enqueued at 1 is before the one enqueued at 2.
\<close>

theorem Less_order_witness:
  "Less (NewWorkloadAwarePolicyWithDefaults None) 9 9 9
     (Some \<lparr>OriginalRequest = \<lparr>ID = ''r1'', GetWorkloadContext =
          Some \<lparr>GetWorkloadID = ''a'', GetCriticality = 5\<rparr>\<rparr>, EnqueueTime = 2\<rparr>)
     (Some \<lparr>OriginalRequest = \<lparr>ID = ''r2'', GetWorkloadContext =
          Some \<lparr>GetWorkloadID = ''b'', GetCriticality = 1\<rparr>\<rparr>, EnqueueTime = 1\<rparr>) \<and>
   \<not> Less (NewWorkloadAwarePolicyWithDefaults None) 9 9 9
     (Some \<lparr>OriginalRequest = \<lparr>ID = ''r2'', GetWorkloadContext =
          Some \<lparr>GetWorkloadID = ''b'', GetCriticality = 1\<rparr>\<rparr>, EnqueueTime = 1\<rparr>)
     (Some \<lparr>OriginalRequest = \<lparr>ID = ''r1'', GetWorkloadContext =
          Some \<lparr>GetWorkloadID = ''a'', GetCriticality = 5\<rparr>\<rparr>, EnqueueTime = 2\<rparr>) \<and>
   Less (NewWorkloadAwarePolicyWithDefaults None) 9 9 9
     (Some \<lparr>OriginalRequest = \<lparr>ID = ''r3'', GetWorkloadContext =
          Some \<lparr>GetWorkloadID = ''c'', GetCriticality = 3\<rparr>\<rparr>, EnqueueTime = 1\<rparr>)
     (Some \<lparr>OriginalRequest = \<lparr>ID = ''r4'', GetWorkloadContext =
          Some \<lparr>GetWorkloadID = ''d'', GetCriticality = 3\<rparr>\<rparr>, EnqueueTime = 2\<rparr>)"
proof -
  define p where "p = NewWorkloadAwarePolicyWithDefaults None"
  define hi where "hi = \<lparr>OriginalRequest = \<lparr>ID = ''r1'', GetWorkloadContext =
          Some \<lparr>GetWorkloadID = ''a'', GetCriticality = 5\<rparr>\<rparr>, EnqueueTime = 2\<rparr>"
  define lo where "lo = \<lparr>OriginalRequest = \<lparr>ID = ''r2'', GetWorkloadContext =
          Some \<lparr>GetWorkloadID = ''b'', GetCriticality = 1\<rparr>\<rparr>, EnqueueTime = 1\<rparr>"
  define early where "early = \<lparr>OriginalRequest = \<lparr>ID = ''r3'', GetWorkloadContext =
          Some \<lparr>GetWorkloadID = ''c'', GetCriticality = 3\<rparr>\<rparr>, EnqueueTime = 1\<rparr>"
  define late where "late = \<lparr>OriginalRequest = \<lparr>ID = ''r4'', GetWorkloadContext =
          Some \<lparr>GetWorkloadID = ''d'', GetCriticality = 3\<rparr>\<rparr>, EnqueueTime = 2\<rparr>"
  have higher: "fgt (computeScore p hi 9 9) (computeScore p lo 9 9)"
    by (simp add: p_def hi_def lo_def policy_eval)
  have tie: "\<not> fne (computeScore p early 9 9) (computeScore p late 9 9)"
    by (simp add: p_def early_def late_def policy_eval)
  have earlier: "EnqueueTime early < EnqueueTime late"
    by (simp add: early_def late_def)
  from Less_order [where p = p and now = 9 and ca = 9 and cb = 9 and x = hi and y = lo
         and t = 9 and a = None and b = None and c = None] higher
  have "Less p 9 9 9 (Some hi) (Some lo)"
    by blast
  moreover
  from Less_order [where p = p and now = 9 and ca = 9 and cb = 9 and x = lo and y = hi
         and t = 9 and a = None and b = None and c = None] higher
  have "\<not> Less p 9 9 9 (Some lo) (Some hi)"
    by blast
  moreover
  from Less_order [where p = p and now = 9 and ca = 9 and cb = 9 and x = early and y = late
         and t = 9 and a = None and b = None and c = None] tie earlier
  have "Less p 9 9 9 (Some early) (Some late)"
    by blast
  ultimately show ?thesis
    by (simp add: p_def hi_def lo_def early_def late_def)
qed

text \<open>
  The claim as stated fails: two different requests that carry no workload context and
  were enqueued at the same instant have equal scores, and neither is before the other.
\<close>

theorem Less_not_total:
  "\<lparr>OriginalRequest = \<lparr>ID = ''r1'', GetWorkloadContext = None\<rparr>,
          EnqueueTime = 7\<rparr>
     \<noteq> \<lparr>OriginalRequest = \<lparr>ID = ''r2'', GetWorkloadContext = None\<rparr>,
          EnqueueTime = 7\<rparr> \<and>
   \<not> Less (NewWorkloadAwarePolicyWithDefaults None) 9 9 9
       (Some \<lparr>OriginalRequest = \<lparr>ID = ''r1'', GetWorkloadContext = None\<rparr>,
          EnqueueTime = 7\<rparr>)
       (Some \<lparr>OriginalRequest = \<lparr>ID = ''r2'', GetWorkloadContext = None\<rparr>,
          EnqueueTime = 7\<rparr>) \<and>
   \<not> Less (NewWorkloadAwarePolicyWithDefaults None) 9 9 9
       (Some \<lparr>OriginalRequest = \<lparr>ID = ''r2'', GetWorkloadContext = None\<rparr>,
          EnqueueTime = 7\<rparr>)
       (Some \<lparr>OriginalRequest = \<lparr>ID = ''r1'', GetWorkloadContext = None\<rparr>,
          EnqueueTime = 7\<rparr>)"
  by (simp add: policy_eval)

subsection \<open>Monotonicity of the score\<close>

lemma min_div_strict:
  fixes a b m :: real
  assumes "0 < m" and "a < b" and "a < m"
  shows "min (a / m) 1 < min (b / m) 1"
  using assms by (simp add: min_def field_simps)

lemma min_div_capped:
  fixes a m :: real
  assumes "0 < m" and "m \<le> a"
  shows "min (a / m) 1 = 1"
  using assms by (simp add: min_def field_simps)

lemma weightedScore_Fin:
  assumes "mw \<noteq> 0" and "mr \<noteq> 0"
  shows "weightedScore \<lparr>WaitTimeWeight = Fin ww, CriticalityWeight = Fin cw,
            RequestRateWeight = Fin rw, MaxWaitTimeSeconds = Fin mw, MaxRequestRate = Fin mr\<rparr>
           w c (Fin r) =
         Fin (min (w / mw) 1 * ww + real_of_int c / 5 * cw - min (r / mr) 1 * rw)"
  using assms by (simp add: weightedScore_def fsub_def)

lemma workloadRequestRate_finite: "isFin (workloadRequestRate p clock w)"
  by (simp add: workloadRequestRate_def GetRequestRate_finite split: option.splits)

lemma computeScore_weighted:
  assumes "config p = \<lparr>WaitTimeWeight = Fin ww, CriticalityWeight = Fin cw,
            RequestRateWeight = Fin rw, MaxWaitTimeSeconds = Fin mw, MaxRequestRate = Fin mr\<rparr>"
    and "mw \<noteq> 0" and "mr \<noteq> 0"
    and "effectiveContext (GetWorkloadContext (OriginalRequest x)) = (w, c)"
    and "workloadRequestRate p clock w = Fin r"
  shows "computeScore p x now clock =
         Fin (min (workloadAvgWaitTime p w / mw) 1 * ww + real_of_int c / 5 * cw
              - min (r / mr) 1 * rw)"
  using assms by (simp add: computeScore_def weightedScore_Fin)

text \<open>
  C7, as the code has it. Two score computations are compared, under one configuration
  with positive weights and positive caps (the default configuration is one); \<open>cx\<close> and
  \<open>cy\<close> are the criticalities that are scored, which are the requests' own between 1 and
  5. With the other two inputs equal: the score is strictly increasing in the criticality;
  it is strictly increasing in the workload's average wait time as long as the smaller of
  the two wait times is below the cap \<open>MaxWaitTimeSeconds\<close>, and constant from the cap
  on; it is strictly decreasing in the workload's request rate as long as the smaller of
  the two rates is below the cap \<open>MaxRequestRate\<close>, and constant from the cap on.
\<close>

theorem computeScore_monotone:
  assumes cfg: "config p = \<lparr>WaitTimeWeight = Fin ww, CriticalityWeight = Fin cw,
            RequestRateWeight = Fin rw, MaxWaitTimeSeconds = Fin mw, MaxRequestRate = Fin mr\<rparr>"
    and same: "config q = config p"
    and pos: "0 < ww" "0 < cw" "0 < rw" "0 < mw" "0 < mr"
    and ctx_x: "effectiveContext (GetWorkloadContext (OriginalRequest x)) = (wx, cx)"
    and ctx_y: "effectiveContext (GetWorkloadContext (OriginalRequest y)) = (wy, cy)"
    and rate_x: "workloadRequestRate p clockx wx = Fin rx"
    and rate_y: "workloadRequestRate q clocky wy = Fin ry"
  shows "(cx < cy \<and> workloadAvgWaitTime p wx = workloadAvgWaitTime q wy \<and> rx = ry \<longrightarrow>
            fgt (computeScore q y now clocky) (computeScore p x now clockx)) \<and>
         (cx = cy \<and> rx = ry \<and> workloadAvgWaitTime p wx < workloadAvgWaitTime q wy \<and>
          workloadAvgWaitTime p wx < mw \<longrightarrow>
            fgt (computeScore q y now clocky) (computeScore p x now clockx)) \<and>
         (cx = cy \<and> rx = ry \<and> mw \<le> workloadAvgWaitTime p wx \<and>
          mw \<le> workloadAvgWaitTime q wy \<longrightarrow>
            computeScore q y now clocky = computeScore p x now clockx) \<and>
         (cx = cy \<and> workloadAvgWaitTime p wx = workloadAvgWaitTime q wy \<and> rx < ry \<and> rx < mr \<longrightarrow>
            fgt (computeScore p x now clockx) (computeScore q y now clocky)) \<and>
         (cx = cy \<and> workloadAvgWaitTime p wx = workloadAvgWaitTime q wy \<and> mr \<le> rx \<and> mr \<le> ry \<longrightarrow>
            computeScore q y now clocky = computeScore p x now clockx)"
proof -
  have sx: "computeScore p x now clockx =
      Fin (min (workloadAvgWaitTime p wx / mw) 1 * ww + real_of_int cx / 5 * cw
           - min (rx / mr) 1 * rw)"
    using cfg pos ctx_x rate_x by (intro computeScore_weighted) simp_all
  have sy: "computeScore q y now clocky =
      Fin (min (workloadAvgWaitTime q wy / mw) 1 * ww + real_of_int cy / 5 * cw
           - min (ry / mr) 1 * rw)"
    using cfg same pos ctx_y rate_y by (intro computeScore_weighted) simp_all
  have crit: "cx < cy \<and> workloadAvgWaitTime p wx = workloadAvgWaitTime q wy \<and> rx = ry \<longrightarrow>
      fgt (computeScore q y now clocky) (computeScore p x now clockx)"
    using pos by (simp add: sx sy)
  have wait: "cx = cy \<and> rx = ry \<and> workloadAvgWaitTime p wx < workloadAvgWaitTime q wy \<and>
      workloadAvgWaitTime p wx < mw \<longrightarrow>
      fgt (computeScore q y now clocky) (computeScore p x now clockx)"
  proof
    assume a: "cx = cy \<and> rx = ry \<and> workloadAvgWaitTime p wx < workloadAvgWaitTime q wy \<and>
      workloadAvgWaitTime p wx < mw"
    then have "min (workloadAvgWaitTime p wx / mw) 1 * ww
        < min (workloadAvgWaitTime q wy / mw) 1 * ww"
      using pos by (intro mult_strict_right_mono min_div_strict) simp_all
    with a show "fgt (computeScore q y now clocky) (computeScore p x now clockx)"
      by (simp add: sx sy)
  qed
  have wait_cap: "cx = cy \<and> rx = ry \<and> mw \<le> workloadAvgWaitTime p wx \<and>
      mw \<le> workloadAvgWaitTime q wy \<longrightarrow>
      computeScore q y now clocky = computeScore p x now clockx"
    using pos by (simp add: sx sy min_div_capped)
  have rate: "cx = cy \<and> workloadAvgWaitTime p wx = workloadAvgWaitTime q wy \<and> rx < ry \<and>
      rx < mr \<longrightarrow>
      fgt (computeScore p x now clockx) (computeScore q y now clocky)"
  proof
    assume a: "cx = cy \<and> workloadAvgWaitTime p wx = workloadAvgWaitTime q wy \<and> rx < ry \<and>
      rx < mr"
    then have "min (rx / mr) 1 * rw < min (ry / mr) 1 * rw"
      using pos by (intro mult_strict_right_mono min_div_strict) simp_all
    with a show "fgt (computeScore p x now clockx) (computeScore q y now clocky)"
      by (simp add: sx sy)
  qed
  have rate_cap: "cx = cy \<and> workloadAvgWaitTime p wx = workloadAvgWaitTime q wy \<and>
      mr \<le> rx \<and> mr \<le> ry \<longrightarrow>
      computeScore q y now clocky = computeScore p x now clockx"
    using pos by (simp add: sx sy min_div_capped)
  from crit wait wait_cap rate rate_cap show ?thesis by blast
qed


text \<open>
  The default configuration: criticality 2 against 1 with no registry; an average wait of
  20 s against 10 s, the windows expired; and, for one registry holding one request, the
  rate 10 per second read after 0.1 s against the rate 20 read after 0.05 s.
\<close>

theorem computeScore_monotone_witness:
  "fgt (computeScore (NewWorkloadAwarePolicyWithDefaults None)
          \<lparr>OriginalRequest = \<lparr>ID = ''r'', GetWorkloadContext =
          Some \<lparr>GetWorkloadID = ''w'', GetCriticality = 2\<rparr>\<rparr>, EnqueueTime = 0\<rparr> 0 0)
       (computeScore (NewWorkloadAwarePolicyWithDefaults None)
          \<lparr>OriginalRequest = \<lparr>ID = ''r'', GetWorkloadContext =
          Some \<lparr>GetWorkloadID = ''w'', GetCriticality = 1\<rparr>\<rparr>, EnqueueTime = 0\<rparr> 0 0) \<and>
   fgt (computeScore (NewWorkloadAwarePolicyWithDefaults (Some (run_ops (NewWorkloadRegistry 0)
       [NewRequest 0 ''w'', DispatchedRequest ''w'' (20 * Second)])))
          \<lparr>OriginalRequest = \<lparr>ID = ''r'', GetWorkloadContext =
          Some \<lparr>GetWorkloadID = ''w'', GetCriticality = 3\<rparr>\<rparr>, EnqueueTime = 0\<rparr> 0 (61 * Second))
       (computeScore (NewWorkloadAwarePolicyWithDefaults (Some (run_ops (NewWorkloadRegistry 0)
       [NewRequest 0 ''w'', DispatchedRequest ''w'' (10 * Second)])))
          \<lparr>OriginalRequest = \<lparr>ID = ''r'', GetWorkloadContext =
          Some \<lparr>GetWorkloadID = ''w'', GetCriticality = 3\<rparr>\<rparr>, EnqueueTime = 0\<rparr> 0 (61 * Second)) \<and>
   fgt (computeScore (NewWorkloadAwarePolicyWithDefaults (Some (run_ops (NewWorkloadRegistry 0)
       [NewRequest 0 ''w''])))
          \<lparr>OriginalRequest = \<lparr>ID = ''r'', GetWorkloadContext =
          Some \<lparr>GetWorkloadID = ''w'', GetCriticality = 3\<rparr>\<rparr>, EnqueueTime = 0\<rparr> 0 100000000)
       (computeScore (NewWorkloadAwarePolicyWithDefaults (Some (run_ops (NewWorkloadRegistry 0)
       [NewRequest 0 ''w''])))
          \<lparr>OriginalRequest = \<lparr>ID = ''r'', GetWorkloadContext =
          Some \<lparr>GetWorkloadID = ''w'', GetCriticality = 3\<rparr>\<rparr>, EnqueueTime = 0\<rparr> 0 50000000)"
proof -
  define p0 where "p0 = (NewWorkloadAwarePolicyWithDefaults None)"
  define p10 where "p10 = (NewWorkloadAwarePolicyWithDefaults (Some (run_ops (NewWorkloadRegistry 0)
       [NewRequest 0 ''w'', DispatchedRequest ''w'' (10 * Second)])))"
  define p20 where "p20 = (NewWorkloadAwarePolicyWithDefaults (Some (run_ops (NewWorkloadRegistry 0)
       [NewRequest 0 ''w'', DispatchedRequest ''w'' (20 * Second)])))"
  define pr where "pr = (NewWorkloadAwarePolicyWithDefaults (Some (run_ops (NewWorkloadRegistry 0)
       [NewRequest 0 ''w''])))"
  define i1 where "i1 = \<lparr>OriginalRequest = \<lparr>ID = ''r'', GetWorkloadContext =
          Some \<lparr>GetWorkloadID = ''w'', GetCriticality = 1\<rparr>\<rparr>, EnqueueTime = 0\<rparr>"
  define i2 where "i2 = \<lparr>OriginalRequest = \<lparr>ID = ''r'', GetWorkloadContext =
          Some \<lparr>GetWorkloadID = ''w'', GetCriticality = 2\<rparr>\<rparr>, EnqueueTime = 0\<rparr>"
  define i3 where "i3 = \<lparr>OriginalRequest = \<lparr>ID = ''r'', GetWorkloadContext =
          Some \<lparr>GetWorkloadID = ''w'', GetCriticality = 3\<rparr>\<rparr>, EnqueueTime = 0\<rparr>"
  have cfg: "config p0 = \<lparr>WaitTimeWeight = Fin 0.4, CriticalityWeight = Fin 0.4,
        RequestRateWeight = Fin 0.2, MaxWaitTimeSeconds = Fin 60, MaxRequestRate = Fin 100\<rparr>"
      "config p10 = \<lparr>WaitTimeWeight = Fin 0.4, CriticalityWeight = Fin 0.4,
        RequestRateWeight = Fin 0.2, MaxWaitTimeSeconds = Fin 60, MaxRequestRate = Fin 100\<rparr>"
      "config pr = \<lparr>WaitTimeWeight = Fin 0.4, CriticalityWeight = Fin 0.4,
        RequestRateWeight = Fin 0.2, MaxWaitTimeSeconds = Fin 60, MaxRequestRate = Fin 100\<rparr>"
      "config p20 = config p10"
    by (simp_all add: p0_def p10_def p20_def pr_def NewWorkloadAwarePolicyWithDefaults_def
          NewWorkloadAwarePolicy_def DefaultWorkloadAwarePolicyConfig_def)
  have ctx: "effectiveContext (GetWorkloadContext (OriginalRequest i1)) = (''w'', 1)"
      "effectiveContext (GetWorkloadContext (OriginalRequest i2)) = (''w'', 2)"
      "effectiveContext (GetWorkloadContext (OriginalRequest i3)) = (''w'', 3)"
    by (simp_all add: i1_def i2_def i3_def effectiveContext_def)
  have rates: "workloadRequestRate p0 0 ''w'' = Fin 0"
      "workloadRequestRate p10 (61 * Second) ''w'' = Fin 0"
      "workloadRequestRate p20 (61 * Second) ''w'' = Fin 0"
      "workloadRequestRate pr 100000000 ''w'' = Fin 10"
      "workloadRequestRate pr 50000000 ''w'' = Fin 20"
    by (simp_all add: p0_def p10_def p20_def pr_def policy_eval registry_eval)
  have waits: "workloadAvgWaitTime p0 ''w'' = 0" "workloadAvgWaitTime p10 ''w'' = 10"
      "workloadAvgWaitTime p20 ''w'' = 20" "workloadAvgWaitTime pr ''w'' = 0"
    by (simp_all add: p0_def p10_def p20_def pr_def policy_eval registry_eval)
  have "fgt (computeScore p0 i2 0 0) (computeScore p0 i1 0 0)"
    using computeScore_monotone [OF cfg(1) refl _ _ _ _ _ ctx(1) ctx(2) rates(1) rates(1),
            where now = 0]
    by simp
  moreover have "fgt (computeScore p20 i3 0 (61 * Second)) (computeScore p10 i3 0 (61 * Second))"
    using computeScore_monotone [OF cfg(2) cfg(4) _ _ _ _ _ ctx(3) ctx(3) rates(2) rates(3),
            where now = 0] waits
    by simp
  moreover have "fgt (computeScore pr i3 0 100000000) (computeScore pr i3 0 50000000)"
    using computeScore_monotone [OF cfg(3) refl _ _ _ _ _ ctx(3) ctx(3) rates(4) rates(5),
            where now = 0]
    by simp
  ultimately show ?thesis
    by (simp add: p0_def p10_def p20_def pr_def i1_def i2_def i3_def)
qed

text \<open>
  The claim as stated fails beyond the caps. Two registries that differ only in the
  average wait time of workload \<open>w\<close>, 60 s and 120 s, give the same score \<open>0.64\<close>,
  so the score with the longer wait is not higher; and one registry read at two instants,
  where the rate of \<open>w\<close> is 500 and 1000 per second, gives the same score \<open>0.04\<close>, so
  the score at the lower rate is not higher.
\<close>

theorem computeScore_capped:
  "workloadAvgWaitTime (NewWorkloadAwarePolicyWithDefaults (Some (run_ops (NewWorkloadRegistry 0)
       [NewRequest 0 ''w'', DispatchedRequest ''w'' (60 * Second)]))) ''w'' = 60 \<and>
   workloadAvgWaitTime (NewWorkloadAwarePolicyWithDefaults (Some (run_ops (NewWorkloadRegistry 0)
       [NewRequest 0 ''w'', DispatchedRequest ''w'' (120 * Second)]))) ''w'' = 120 \<and>
   computeScore (NewWorkloadAwarePolicyWithDefaults (Some (run_ops (NewWorkloadRegistry 0)
       [NewRequest 0 ''w'', DispatchedRequest ''w'' (60 * Second)])))
     \<lparr>OriginalRequest = \<lparr>ID = ''r'', GetWorkloadContext =
          Some \<lparr>GetWorkloadID = ''w'', GetCriticality = 3\<rparr>\<rparr>, EnqueueTime = 0\<rparr>
     (61 * Second) (61 * Second) = Fin 0.64 \<and>
   computeScore (NewWorkloadAwarePolicyWithDefaults (Some (run_ops (NewWorkloadRegistry 0)
       [NewRequest 0 ''w'', DispatchedRequest ''w'' (120 * Second)])))
     \<lparr>OriginalRequest = \<lparr>ID = ''r'', GetWorkloadContext =
          Some \<lparr>GetWorkloadID = ''w'', GetCriticality = 3\<rparr>\<rparr>, EnqueueTime = 0\<rparr>
     (61 * Second) (61 * Second) = Fin 0.64 \<and>
   \<not> fgt
     (computeScore (NewWorkloadAwarePolicyWithDefaults (Some (run_ops (NewWorkloadRegistry 0)
         [NewRequest 0 ''w'', DispatchedRequest ''w'' (120 * Second)])))
       \<lparr>OriginalRequest = \<lparr>ID = ''r'', GetWorkloadContext =
          Some \<lparr>GetWorkloadID = ''w'', GetCriticality = 3\<rparr>\<rparr>, EnqueueTime = 0\<rparr>
       (61 * Second) (61 * Second))
     (computeScore (NewWorkloadAwarePolicyWithDefaults (Some (run_ops (NewWorkloadRegistry 0)
         [NewRequest 0 ''w'', DispatchedRequest ''w'' (60 * Second)])))
       \<lparr>OriginalRequest = \<lparr>ID = ''r'', GetWorkloadContext =
          Some \<lparr>GetWorkloadID = ''w'', GetCriticality = 3\<rparr>\<rparr>, EnqueueTime = 0\<rparr>
       (61 * Second) (61 * Second)) \<and>
   workloadRequestRate (NewWorkloadAwarePolicyWithDefaults (Some (run_ops (NewWorkloadRegistry 0)
       [NewRequest 0 ''w'']))) 2000000 ''w'' = Fin 500 \<and>
   workloadRequestRate (NewWorkloadAwarePolicyWithDefaults (Some (run_ops (NewWorkloadRegistry 0)
       [NewRequest 0 ''w'']))) 1000000 ''w'' = Fin 1000 \<and>
   computeScore (NewWorkloadAwarePolicyWithDefaults (Some (run_ops (NewWorkloadRegistry 0)
       [NewRequest 0 ''w''])))
     \<lparr>OriginalRequest = \<lparr>ID = ''r'', GetWorkloadContext =
          Some \<lparr>GetWorkloadID = ''w'', GetCriticality = 3\<rparr>\<rparr>, EnqueueTime = 0\<rparr>
     0 2000000 = Fin 0.04 \<and>
   computeScore (NewWorkloadAwarePolicyWithDefaults (Some (run_ops (NewWorkloadRegistry 0)
       [NewRequest 0 ''w''])))
     \<lparr>OriginalRequest = \<lparr>ID = ''r'', GetWorkloadContext =
          Some \<lparr>GetWorkloadID = ''w'', GetCriticality = 3\<rparr>\<rparr>, EnqueueTime = 0\<rparr>
     0 1000000 = Fin 0.04 \<and>
   \<not> fgt
     (computeScore (NewWorkloadAwarePolicyWithDefaults (Some (run_ops (NewWorkloadRegistry 0)
         [NewRequest 0 ''w''])))
       \<lparr>OriginalRequest = \<lparr>ID = ''r'', GetWorkloadContext =
          Some \<lparr>GetWorkloadID = ''w'', GetCriticality = 3\<rparr>\<rparr>, EnqueueTime = 0\<rparr>
       0 2000000)
     (computeScore (NewWorkloadAwarePolicyWithDefaults (Some (run_ops (NewWorkloadRegistry 0)
         [NewRequest 0 ''w''])))
       \<lparr>OriginalRequest = \<lparr>ID = ''r'', GetWorkloadContext =
          Some \<lparr>GetWorkloadID = ''w'', GetCriticality = 3\<rparr>\<rparr>, EnqueueTime = 0\<rparr>
       0 1000000)"
  by (simp add: policy_eval registry_eval)

section \<open>Properties of the workload context header\<close>

text \<open>
  C4. When the header is present and its JSON decodes, a criticality outside \<open>[1, 5]\<close>
  is returned clamped to the nearest bound (1 for zero and negative values, 5 for values
  above 5), a criticality inside the range is returned as it is, and 3 is returned by
  default only when the field is absent.
\<close>

theorem extractWorkloadContext_criticality:
  assumes "headers ''x-workload-context'' = Some headerValue"
    and "decode headerValue = Some j"
  shows "(\<forall>c. json_criticality j = Some c \<longrightarrow>
            GetCriticality (extractWorkloadContext decode uid headers) =
              (if c < 1 then 1 else if c > 5 then 5 else c)) \<and>
         (json_criticality j = None \<longrightarrow>
            GetCriticality (extractWorkloadContext decode uid headers) = 3) \<and>
         (GetCriticality (extractWorkloadContext decode uid headers) = 3 \<longrightarrow>
            json_criticality j = None \<or> json_criticality j = Some 3)"
  using assms
  by (auto simp: extractWorkloadContext_def split: option.splits if_splits)

text \<open>
  A decoder that knows three header values: criticality 0, criticality 10 and no
  criticality field.
\<close>

theorem extractWorkloadContext_criticality_witness:
  "GetCriticality (extractWorkloadContext
      (\<lambda>v. if v = ''zero'' then Some \<lparr>json_workload_id = Some ''t'', json_criticality = Some 0\<rparr>
           else if v = ''ten'' then Some \<lparr>json_workload_id = Some ''t'', json_criticality = Some 10\<rparr>
           else if v = ''none'' then Some \<lparr>json_workload_id = Some ''t'', json_criticality = None\<rparr>
           else None)
      ''auto-1'' [''x-workload-context'' \<mapsto> ''zero'']) = 1 \<and>
   GetCriticality (extractWorkloadContext
      (\<lambda>v. if v = ''zero'' then Some \<lparr>json_workload_id = Some ''t'', json_criticality = Some 0\<rparr>
           else if v = ''ten'' then Some \<lparr>json_workload_id = Some ''t'', json_criticality = Some 10\<rparr>
           else if v = ''none'' then Some \<lparr>json_workload_id = Some ''t'', json_criticality = None\<rparr>
           else None)
      ''auto-1'' [''x-workload-context'' \<mapsto> ''ten'']) = 5 \<and>
   GetCriticality (extractWorkloadContext
      (\<lambda>v. if v = ''zero'' then Some \<lparr>json_workload_id = Some ''t'', json_criticality = Some 0\<rparr>
           else if v = ''ten'' then Some \<lparr>json_workload_id = Some ''t'', json_criticality = Some 10\<rparr>
           else if v = ''none'' then Some \<lparr>json_workload_id = Some ''t'', json_criticality = None\<rparr>
           else None)
      ''auto-1'' [''x-workload-context'' \<mapsto> ''none'']) = 3"
proof -
  define decode where "decode =
      (\<lambda>v. if v = ''zero'' then Some \<lparr>json_workload_id = Some ''t'', json_criticality = Some 0\<rparr>
           else if v = ''ten'' then Some \<lparr>json_workload_id = Some ''t'', json_criticality = Some 10\<rparr>
           else if v = ''none'' then Some \<lparr>json_workload_id = Some ''t'', json_criticality = None\<rparr>
           else None)"
  have zero: "decode ''zero''
      = Some \<lparr>json_workload_id = Some ''t'', json_criticality = Some 0\<rparr>"
    and ten: "decode ''ten''
      = Some \<lparr>json_workload_id = Some ''t'', json_criticality = Some 10\<rparr>"
    and none: "decode ''none''
      = Some \<lparr>json_workload_id = Some ''t'', json_criticality = None\<rparr>"
    by (simp_all add: decode_def)
  from extractWorkloadContext_criticality
         [where headers = "[''x-workload-context'' \<mapsto> ''zero'']" and headerValue = "''zero''"
            and decode = decode and uid = "''auto-1''", OF _ zero]
  have "GetCriticality (extractWorkloadContext decode ''auto-1''
          [''x-workload-context'' \<mapsto> ''zero'']) = 1"
    by simp
  moreover
  from extractWorkloadContext_criticality
         [where headers = "[''x-workload-context'' \<mapsto> ''ten'']" and headerValue = "''ten''"
            and decode = decode and uid = "''auto-1''", OF _ ten]
  have "GetCriticality (extractWorkloadContext decode ''auto-1''
          [''x-workload-context'' \<mapsto> ''ten'']) = 5"
    by simp
  moreover
  from extractWorkloadContext_criticality
         [where headers = "[''x-workload-context'' \<mapsto> ''none'']" and headerValue = "''none''"
            and decode = decode and uid = "''auto-1''", OF _ none]
  have "GetCriticality (extractWorkloadContext decode ''auto-1''
          [''x-workload-context'' \<mapsto> ''none'']) = 3"
    by simp
  ultimately show ?thesis
    unfolding decode_def by simp
qed

end
